theory Spec2Isabelle
  imports Complex_Main "HOL-Library.Word" "HOL-Library.Sublist"
begin

section \<open>Values shared by the three components\<close>

text \<open>
  The plugin is TypeScript.  A thrown value or a rejected promise is a value of type
  \<open>exn\<close>; a computation that may throw returns \<open>exn + 'a\<close> with \<open>Inl\<close> for the
  exception.  An optional parameter or property (\<open>x?: string\<close>) is a \<open>string option\<close>
  with \<open>None\<close> for \<open>undefined\<close>.  An \<open>ArrayBuffer\<close> is its list of bytes.
\<close>

datatype exn = Error string

type_synonym ArrayBuffer = "8 word list"

text \<open>The argument of \<open>JSON.stringify\<close>: the object literal, not its serialisation.\<close>

datatype json = JString string | JNumber real | JObject "(string \<times> json) list"

text \<open>JavaScript truthiness of a \<open>string | undefined\<close>: \<open>!x\<close>, \<open>a || b\<close>.\<close>

definition falsy :: "string option \<Rightarrow> bool" where
  "falsy x = (case x of None \<Rightarrow> True | Some s \<Rightarrow> s = [])"

definition js_or :: "string option \<Rightarrow> string option \<Rightarrow> string option" where
  "js_or a b = (if falsy a then b else a)"

text \<open>\<open>a || 'literal'\<close>: the right operand is a non-empty string literal.\<close>

definition or_literal :: "string option \<Rightarrow> string \<Rightarrow> string" where
  "or_literal a d = (case a of None \<Rightarrow> d | Some s \<Rightarrow> if s = [] then d else s)"

text \<open>
  A JavaScript number is a double.  The plugin never computes with one; it only
  interpolates it into a string (\<open>${n}\<close>).  A number is therefore kept as the text that
  the interpolation prints for it: \<open>5\<close> for 5, \<open>1e+21\<close> for 1e21, \<open>NaN\<close> for NaN.
\<close>

datatype number = Number (toString: string)

subsection \<open>Provider data: the text provider's SDK and the Fetch API\<close>

record Part =
  part_text :: "string option"

record Content =
  role :: "string option"
  parts :: "Part list option"

record Candidate =
  content :: "Content option"

record GenerateContentResponse =
  candidates :: "Candidate list option"

record GenerateContentParameters =
  model :: string
  contents :: "Content list"

record RequestInit =
  http_method :: string
  headers :: "(string \<times> string) list"
  body :: json

text \<open>
  A \<open>Response\<close> of the Fetch API as the speech client reads it: \<open>ok\<close> is the 2xx flag,
  \<open>response_text\<close> and \<open>arrayBuffer\<close> are what awaiting \<open>response.text()\<close> and
  \<open>response.arrayBuffer()\<close> gives (reading the body may itself reject).
\<close>

record Response =
  ok :: bool
  status :: number
  response_text :: "exn + string"
  arrayBuffer :: "exn + ArrayBuffer"

type_synonym fetch_fn = "string \<Rightarrow> RequestInit \<Rightarrow> exn + Response"

subsection \<open>Game data and the observable events\<close>

record EntityState =
  name :: string
  personality :: "string option"

record PlayerState =
  name :: string
  level :: number

record GameState =
  location :: string
  timeOfDay :: string

record DialogueOptions =
  entityId :: string
  duration :: "real option"

record AudioOptions =
  entityId :: "string option"

datatype log_arg = Thrown exn | Stringified GenerateContentResponse

text \<open>
  Every call that leaves the component is recorded, with its arguments, in the order in
  which it is made: console output, the calls on the host's adapter, the calls on the two
  clients, and the calls the clients make on their providers.
\<close>

datatype event =
    ConsoleLog string
  | ConsoleError string "log_arg list"
  | NewGoogleGenAI "string option"
  | GenerateContent GenerateContentParameters
  | Fetch string RequestInit
  | GetEntityState string
  | GetPlayerState
  | GetGameState
  | ShowDialogue string DialogueOptions
  | PlayAudio ArrayBuffer AudioOptions
  | GenerateText string
  | GenerateSpeech string

fun is_ShowDialogue :: "event \<Rightarrow> bool" where
  "is_ShowDialogue (ShowDialogue t opts) = True"
| "is_ShowDialogue ev = False"

fun is_PlayAudio :: "event \<Rightarrow> bool" where
  "is_PlayAudio (PlayAudio a opts) = True"
| "is_PlayAudio ev = False"

fun is_GenerateSpeech :: "event \<Rightarrow> bool" where
  "is_GenerateSpeech (GenerateSpeech t) = True"
| "is_GenerateSpeech ev = False"

fun is_Fetch :: "event \<Rightarrow> bool" where
  "is_Fetch (Fetch url init) = True"
| "is_Fetch ev = False"

section \<open>Speech synthesis client (ElevenLabsTTSService)\<close>

record ElevenLabsTTSService =
  apiKey :: string
  voiceId :: string
  modelId :: string

text \<open>
  The constructor.  \<open>env\<close> is \<open>process.env\<close>, \<open>key\<close> the argument \<open>apiKey\<close> and
  \<open>override\<close> the optional argument \<open>modelId\<close>.  The result is paired with the events of
  the construction; this constructor produces none.
\<close>

definition ElevenLabsTTSService_constructor ::
  "(string \<Rightarrow> string option) \<Rightarrow> string option \<Rightarrow> string option
     \<Rightarrow> event list \<times> (exn + ElevenLabsTTSService)" where
  "ElevenLabsTTSService_constructor env key override =
     (case key of
        None \<Rightarrow> ([], Inl (Error ''ElevenLabs API key is required.''))
      | Some k \<Rightarrow>
          if k = [] then ([], Inl (Error ''ElevenLabs API key is required.''))
          else ([], Inr \<lparr> apiKey = k,
                          voiceId = ''21m00Tcm4TlvDq8ikWAM'',
                          modelId = or_literal (js_or override (env ''ELEVENLABS_MODEL_ID''))
                                      ''eleven_multilingual_v2'' \<rparr>))"

definition speech_url :: "ElevenLabsTTSService \<Rightarrow> string" where
  "speech_url svc = ''https://api.elevenlabs.io/v1/text-to-speech/'' @ voiceId svc"

definition speech_request :: "ElevenLabsTTSService \<Rightarrow> string \<Rightarrow> RequestInit" where
  "speech_request svc txt =
     \<lparr> http_method = ''POST'',
       headers = [(''Accept'', ''audio/mpeg''),
                  (''Content-Type'', ''application/json''),
                  (''xi-api-key'', apiKey svc)],
       body = JObject [(''text'', JString txt),
                       (''model_id'', JString (modelId svc)),
                       (''voice_settings'',
                          JObject [(''stability'', JNumber 0.5),
                                   (''similarity_boost'', JNumber 0.5)])] \<rparr>"

text \<open>The \<open>try\<close> block of \<open>generateSpeech\<close>: the fetch and the reading of the response.\<close>

definition generateSpeech_try ::
  "fetch_fn \<Rightarrow> ElevenLabsTTSService \<Rightarrow> string \<Rightarrow> exn + ArrayBuffer option" where
  "generateSpeech_try fetch svc txt =
     (case fetch (speech_url svc) (speech_request svc txt) of
        Inl e \<Rightarrow> Inl e
      | Inr response \<Rightarrow>
          if \<not> ok response then
            (case response_text response of
               Inl e \<Rightarrow> Inl e
             | Inr errorBody \<Rightarrow>
                 Inl (Error (''HTTP error! status: '' @ toString (status response)
                              @ '', body: '' @ errorBody)))
          else
            (case arrayBuffer response of
               Inl e \<Rightarrow> Inl e
             | Inr audioData \<Rightarrow> Inr (Some audioData)))"

definition generateSpeech ::
  "fetch_fn \<Rightarrow> ElevenLabsTTSService \<Rightarrow> string \<Rightarrow> event list \<times> (exn + ArrayBuffer option)" where
  "generateSpeech fetch svc txt =
     (let entry = [ConsoleLog (''Requesting TTS from ElevenLabs for: '' @ [CHR 0x22] @ txt @ [CHR 0x22]),
                   Fetch (speech_url svc) (speech_request svc txt)]
      in case generateSpeech_try fetch svc txt of
           Inl e \<Rightarrow> (entry @ [ConsoleError ''Error calling ElevenLabs TTS API:'' [Thrown e]], Inr None)
         | Inr audioData \<Rightarrow> (entry, Inr audioData))"

section \<open>Text generation client (GeminiService)\<close>

text \<open>
  \<open>genAI\<close> is the provider handle, seen through the one method the client uses,
  \<open>genAI.models.generateContent\<close>.  The handle is made by the SDK's own constructor
  \<open>GoogleGenAI\<close>, which is not part of this repository and is a parameter here.
\<close>

type_synonym generateContent_fn = "GenerateContentParameters \<Rightarrow> exn + GenerateContentResponse"

record GeminiService =
  genAI :: generateContent_fn
  modelName :: string

definition GeminiService_constructor ::
  "(string option \<Rightarrow> exn + generateContent_fn) \<Rightarrow> (string \<Rightarrow> string option)
     \<Rightarrow> string option \<Rightarrow> string option \<Rightarrow> event list \<times> (exn + GeminiService)" where
  "GeminiService_constructor GoogleGenAI env key override =
     (case GoogleGenAI key of
        Inl e \<Rightarrow> ([NewGoogleGenAI key], Inl e)
      | Inr handle \<Rightarrow>
          ([NewGoogleGenAI key],
           Inr \<lparr> genAI = handle,
                 modelName = or_literal (js_or override (env ''GEMINI_MODEL_NAME''))
                               ''gemini-1.5-flash'' \<rparr>))"

text \<open>\<open>result.candidates?.[0]?.content?.parts?.[0]?.text\<close>\<close>

definition first_text :: "GenerateContentResponse \<Rightarrow> string option" where
  "first_text result =
     (case candidates result of
        None \<Rightarrow> None
      | Some [] \<Rightarrow> None
      | Some (c # cs) \<Rightarrow>
          (case content c of
             None \<Rightarrow> None
           | Some ct \<Rightarrow>
               (case parts ct of
                  None \<Rightarrow> None
                | Some [] \<Rightarrow> None
                | Some (p # ps) \<Rightarrow> part_text p)))"

definition text_request :: "GeminiService \<Rightarrow> string \<Rightarrow> GenerateContentParameters" where
  "text_request svc prompt =
     \<lparr> model = modelName svc,
       contents = [\<lparr> role = Some ''user'', parts = Some [\<lparr> part_text = Some prompt \<rparr>] \<rparr>] \<rparr>"

definition generateText ::
  "GeminiService \<Rightarrow> string \<Rightarrow> event list \<times> (exn + string option)" where
  "generateText svc prompt =
     (let entry = [ConsoleLog (''Sending prompt to Gemini using model '' @ modelName svc @ ''...''),
                   GenerateContent (text_request svc prompt)]
      in case genAI svc (text_request svc prompt) of
           Inl e \<Rightarrow> (entry @ [ConsoleError ''Error calling Gemini API:'' [Thrown e]], Inr None)
         | Inr result \<Rightarrow>
             if \<not> falsy (first_text result) then (entry, Inr (first_text result))
             else (entry @ [ConsoleError
                     ''No text generated from Gemini API or invalid response structure. Response:''
                     [Stringified result]], Inr None))"

section \<open>Dialogue orchestrator (AIManager)\<close>

text \<open>
  The adapter is implemented by the host game.  Its methods read and change the host's
  state \<open>'h\<close> and may throw (the synchronous ones) or reject (the asynchronous ones); both
  are \<open>Inl\<close>.  A method takes the host state and returns its outcome with the new state.
\<close>

record 'h GameAdapter =
  playAudio :: "ArrayBuffer \<Rightarrow> AudioOptions \<Rightarrow> 'h \<Rightarrow> (exn + unit) \<times> 'h"
  stopAudio :: "string option \<Rightarrow> 'h \<Rightarrow> (exn + unit) \<times> 'h"
  showDialogue :: "string \<Rightarrow> DialogueOptions \<Rightarrow> 'h \<Rightarrow> (exn + unit) \<times> 'h"
  hideDialogue :: "string \<Rightarrow> 'h \<Rightarrow> (exn + unit) \<times> 'h"
  getGameState :: "'h \<Rightarrow> (exn + GameState) \<times> 'h"
  getPlayerState :: "'h \<Rightarrow> (exn + PlayerState) \<times> 'h"
  getEntityState :: "string \<Rightarrow> 'h \<Rightarrow> (exn + EntityState) \<times> 'h"

record AIManagerOptions =
  geminiApiKey :: string
  elevenLabsApiKey :: string
  geminiModelName :: "string option"
  elevenLabsModelId :: "string option"

record 'h AIManager =
  adapter :: "'h GameAdapter"
  llmService :: GeminiService
  ttsService :: ElevenLabsTTSService

definition AIManager_constructor ::
  "(string option \<Rightarrow> exn + generateContent_fn) \<Rightarrow> (string \<Rightarrow> string option)
     \<Rightarrow> 'h GameAdapter \<Rightarrow> AIManagerOptions \<Rightarrow> event list \<times> (exn + 'h AIManager)" where
  "AIManager_constructor GoogleGenAI env adp options =
     (case GeminiService_constructor GoogleGenAI env
             (Some (geminiApiKey options)) (geminiModelName options) of
        (evs1, Inl e) \<Rightarrow> (evs1, Inl e)
      | (evs1, Inr llm) \<Rightarrow>
          (case ElevenLabsTTSService_constructor env
                  (Some (elevenLabsApiKey options)) (elevenLabsModelId options) of
             (evs2, Inl e) \<Rightarrow> (evs1 @ evs2, Inl e)
           | (evs2, Inr tts) \<Rightarrow>
               (evs1 @ evs2 @ [ConsoleLog ''AIManager initialized.''],
                Inr \<lparr> adapter = adp, llmService = llm, ttsService = tts \<rparr>)))"

subsection \<open>Sequencing\<close>

text \<open>
  One invocation threads the host state and the list of events recorded so far.  A step
  either resolves with a value or throws (\<open>promise\<close> is the type of such a step);
  \<open>await\<close> runs the continuation only after a step that resolved, \<open>tryCatch\<close> runs the
  handler only after a block that threw.
\<close>

type_synonym ('a, 'h) promise = "'h \<times> event list \<Rightarrow> (exn + 'a) \<times> ('h \<times> event list)"

definition throw :: "exn \<Rightarrow> ('a, 'h) promise" where
  "throw e s = (Inl e, s)"

definition await :: "('a, 'h) promise \<Rightarrow> ('a \<Rightarrow> ('b, 'h) promise) \<Rightarrow> ('b, 'h) promise" where
  "await m k s = (case m s of (Inl e, s') \<Rightarrow> (Inl e, s') | (Inr x, s') \<Rightarrow> k x s')"

definition tryCatch :: "('a, 'h) promise \<Rightarrow> (exn \<Rightarrow> ('a, 'h) promise) \<Rightarrow> ('a, 'h) promise" where
  "tryCatch m handler s = (case m s of (Inl e, s') \<Rightarrow> handler e s' | (Inr x, s') \<Rightarrow> (Inr x, s'))"

text \<open>Console output: recorded, never throws.\<close>

definition console :: "event \<Rightarrow> (unit, 'h) promise" where
  "console ev s = (Inr (), (fst s, snd s @ [ev]))"

text \<open>A call on the adapter: recorded when made, then run on the host state.\<close>

definition adapter_call :: "event \<Rightarrow> ('h \<Rightarrow> (exn + 'a) \<times> 'h) \<Rightarrow> ('a, 'h) promise" where
  "adapter_call ev f s = (case f (fst s) of (r, h') \<Rightarrow> (r, (h', snd s @ [ev])))"

text \<open>A call on one of the two clients: recorded when made, followed by the client's own events.\<close>

definition client_call :: "event \<Rightarrow> event list \<times> (exn + 'a) \<Rightarrow> ('a, 'h) promise" where
  "client_call ev c s = (snd c, (fst s, snd s @ ev # fst c))"

subsection \<open>generateNpcDialogue\<close>

text \<open>
  The prompt is the template literal of the source, with its line breaks and its
  indentation of sixteen spaces.  The second parameter of the method,
  \<open>playerContextOverrides\<close>, is never read and is left out.
\<close>

definition indent :: string where
  "indent = replicate 16 CHR '' ''"

definition build_prompt :: "EntityState \<Rightarrow> PlayerState \<Rightarrow> GameState \<Rightarrow> string" where
  "build_prompt npcState playerState gameState =
     [CHR 0x0A] @ indent @ ''You are '' @ EntityState.name npcState
       @ '', a character in a fantasy RPG.''
     @ [CHR 0x0A] @ indent @ ''Your personality is: ''
       @ or_literal (personality npcState) ''a mysterious stranger'' @ ''.''
     @ [CHR 0x0A] @ indent @ ''You are talking to a player named '' @ PlayerState.name playerState
       @ ''.''
     @ [CHR 0x0A] @ indent @ ''The player'' @ [CHR 0x27] @ ''s level is ''
       @ toString (level playerState) @ ''.''
     @ [CHR 0x0A] @ indent @ ''Current situation: You are at '' @ location gameState
       @ '', and it is '' @ timeOfDay gameState @ ''.''
     @ [CHR 0x0A] @ indent
     @ [CHR 0x0A] @ indent
       @ ''Based on this, generate a single, short, engaging line of dialogue for the player. Be creative.''"

definition dialogue_options :: "string \<Rightarrow> DialogueOptions" where
  "dialogue_options eid = \<lparr> DialogueOptions.entityId = eid, duration = None \<rparr>"

definition audio_options :: "string \<Rightarrow> AudioOptions" where
  "audio_options eid = \<lparr> AudioOptions.entityId = Some eid \<rparr>"

text \<open>The \<open>try\<close> block: steps 1 to 6 of the source.\<close>

definition generateNpcDialogue_try :: "'h AIManager \<Rightarrow> fetch_fn \<Rightarrow> string \<Rightarrow> (unit, 'h) promise" where
  "generateNpcDialogue_try mgr fetch eid =
     await (adapter_call (GetEntityState eid) (getEntityState (adapter mgr) eid)) (\<lambda>npcState.
     await (adapter_call GetPlayerState (getPlayerState (adapter mgr))) (\<lambda>playerState.
     await (adapter_call GetGameState (getGameState (adapter mgr))) (\<lambda>gameState.
     await (client_call (GenerateText (build_prompt npcState playerState gameState))
              (generateText (llmService mgr) (build_prompt npcState playerState gameState)))
       (\<lambda>dialogueText.
     case dialogueText of
       None \<Rightarrow> throw (Error ''Failed to generate dialogue text.'')
     | Some txt \<Rightarrow>
         if txt = [] then throw (Error ''Failed to generate dialogue text.'')
         else
     await (adapter_call (ShowDialogue txt (dialogue_options eid))
              (showDialogue (adapter mgr) txt (dialogue_options eid))) (\<lambda>_.
     await (client_call (GenerateSpeech txt) (generateSpeech fetch (ttsService mgr) txt))
       (\<lambda>audioData.
     case audioData of
       None \<Rightarrow> console (ConsoleError ''Failed to generate audio.'' [])
     | Some bytes \<Rightarrow>
         adapter_call (PlayAudio bytes (audio_options eid))
           (playAudio (adapter mgr) bytes (audio_options eid))))))))"

text \<open>The \<open>catch\<close> block: the diagnostic, then the fallback display.\<close>

definition generateNpcDialogue_catch :: "'h AIManager \<Rightarrow> string \<Rightarrow> exn \<Rightarrow> (unit, 'h) promise" where
  "generateNpcDialogue_catch mgr eid err =
     await (console (ConsoleError (''[AIManager] Error generating dialogue for '' @ eid @ '':'')
                       [Thrown err])) (\<lambda>_.
     adapter_call (ShowDialogue ''...'' (dialogue_options eid))
       (showDialogue (adapter mgr) ''...'' (dialogue_options eid)))"

definition generateNpcDialogue :: "'h AIManager \<Rightarrow> fetch_fn \<Rightarrow> string \<Rightarrow> (unit, 'h) promise" where
  "generateNpcDialogue mgr fetch eid =
     await (console (ConsoleLog (''Generating dialogue for entity: '' @ eid))) (\<lambda>_.
     tryCatch (generateNpcDialogue_try mgr fetch eid) (generateNpcDialogue_catch mgr eid))"

section \<open>Fixtures of the test suite\<close>

text \<open>
  The mocks of the repository's tests, as values: the SDK mock whose constructor accepts
  any key and whose \<open>generateContent\<close> resolves with one candidate, the filtered response
  without candidates, the mocked \<open>fetch\<close>, and \<open>MockGameAdapter\<close>, whose host state is
  trivial.
\<close>

definition mockGenerateContent :: "string \<Rightarrow> generateContent_fn" where
  "mockGenerateContent reply req =
     Inr \<lparr> candidates = Some [\<lparr> content = Some \<lparr> role = None,
                                    parts = Some [\<lparr> part_text = Some reply \<rparr>] \<rparr> \<rparr>] \<rparr>"

definition filteredGenerateContent :: generateContent_fn where
  "filteredGenerateContent req = Inr \<lparr> candidates = Some [] \<rparr>"

definition MockedGoogleGenAI :: "string option \<Rightarrow> exn + generateContent_fn" where
  "MockedGoogleGenAI key = Inr (mockGenerateContent ''ok'')"

definition mockedFetch :: "Response \<Rightarrow> fetch_fn" where
  "mockedFetch response url init = Inr response"

definition audio_response :: "ArrayBuffer \<Rightarrow> Response" where
  "audio_response bytes =
     \<lparr> ok = True, status = Number ''200'', response_text = Inr [], arrayBuffer = Inr bytes \<rparr>"

definition unauthorized_response :: Response where
  "unauthorized_response =
     \<lparr> ok = False, status = Number ''401'', response_text = Inr ''Unauthorized'', arrayBuffer = Inr [] \<rparr>"

definition no_env :: "string \<Rightarrow> string option" where
  "no_env v = None"

definition MockGameAdapter :: "unit GameAdapter" where
  "MockGameAdapter =
     \<lparr> playAudio = (\<lambda>audioData opts h. (Inr (), h)),
       stopAudio = (\<lambda>eid h. (Inr (), h)),
       showDialogue = (\<lambda>dtext opts h. (Inr (), h)),
       hideDialogue = (\<lambda>eid h. (Inr (), h)),
       getGameState = (\<lambda>h. (Inr \<lparr> location = ''the Whispering Woods'', timeOfDay = ''dusk'' \<rparr>, h)),
       getPlayerState = (\<lambda>h. (Inr \<lparr> PlayerState.name = ''Eldrin'', level = Number ''5'' \<rparr>, h)),
       getEntityState = (\<lambda>eid h. (Inr \<lparr> EntityState.name = ''Mysterious Old Man'',
                                         personality = Some ''cryptic and wise'' \<rparr>, h)) \<rparr>"

text \<open>A host whose entity lookup rejects, and one whose dialogue UI throws as well.\<close>

definition UnknownEntityAdapter :: "unit GameAdapter" where
  "UnknownEntityAdapter =
     MockGameAdapter \<lparr> getEntityState := (\<lambda>eid h. (Inl (Error ''unknown entity''), h)) \<rparr>"

definition NoDialogueUiAdapter :: "unit GameAdapter" where
  "NoDialogueUiAdapter =
     UnknownEntityAdapter \<lparr> showDialogue := (\<lambda>dtext opts h. (Inl (Error ''dialogue UI unavailable''), h)) \<rparr>"

text \<open>A host that answers every state query and whose dialogue UI throws.\<close>

definition BrokenDialogueAdapter :: "unit GameAdapter" where
  "BrokenDialogueAdapter =
     MockGameAdapter \<lparr> showDialogue := (\<lambda>dtext opts h. (Inl (Error ''dialogue UI unavailable''), h)) \<rparr>"

definition test_manager :: "generateContent_fn \<Rightarrow> unit GameAdapter \<Rightarrow> unit AIManager" where
  "test_manager gen adp =
     \<lparr> adapter = adp,
       llmService = \<lparr> genAI = gen, modelName = ''test-model-from-options'' \<rparr>,
       ttsService = \<lparr> apiKey = ''fake-elevenlabs-key'',
                      voiceId = ''21m00Tcm4TlvDq8ikWAM'',
                      modelId = ''eleven_multilingual_v2'' \<rparr> \<rparr>"

section \<open>The provider clients\<close>

subsection \<open>Truthiness and the priority chain\<close>

lemma falsy_iff: "falsy x \<longleftrightarrow> x = None \<or> x = Some []"
  by (simp add: falsy_def split: option.splits)

lemma or_literal_js_or:
  "or_literal (js_or a b) d =
     (if \<not> falsy a then the a else if \<not> falsy b then the b else d)"
  by (auto simp: or_literal_def js_or_def falsy_def split: option.splits)

lemma or_literal_nonempty: "d \<noteq> [] \<Longrightarrow> or_literal a d \<noteq> []"
  by (simp add: or_literal_def split: option.splits)

lemma js_or_empty [simp]: "js_or (Some []) b = js_or None b"
  by (simp add: js_or_def falsy_def)

lemma or_literal_empty [simp]: "or_literal (Some []) d = or_literal None d"
  by (simp add: or_literal_def)

lemma tts_constructed:
  "snd (ElevenLabsTTSService_constructor env key override) = Inr svc \<longleftrightarrow>
     (\<exists>k. key = Some k \<and> k \<noteq> [] \<and>
        svc = \<lparr> apiKey = k, voiceId = ''21m00Tcm4TlvDq8ikWAM'',
                modelId = or_literal (js_or override (env ''ELEVENLABS_MODEL_ID''))
                            ''eleven_multilingual_v2'' \<rparr>)"
  by (auto simp: ElevenLabsTTSService_constructor_def split: option.splits)

lemma llm_constructed:
  "snd (GeminiService_constructor sdk env key override) = Inr svc \<longleftrightarrow>
     (\<exists>handle. sdk key = Inr handle \<and>
        svc = \<lparr> genAI = handle,
                modelName = or_literal (js_or override (env ''GEMINI_MODEL_NAME''))
                              ''gemini-1.5-flash'' \<rparr>)"
  by (auto simp: GeminiService_constructor_def split: sum.splits)

subsection \<open>The clients never raise\<close>

lemma generateText_resolves: "\<exists>res. snd (generateText svc prompt) = Inr res"
  by (simp add: generateText_def Let_def split: sum.splits)

lemma generateSpeech_resolves: "\<exists>res. snd (generateSpeech fetch svc dtext) = Inr res"
  by (simp add: generateSpeech_def Let_def split: sum.splits)

lemma generateText_nonempty: "snd (generateText svc prompt) = Inr (Some t) \<Longrightarrow> t \<noteq> []"
  by (auto simp: generateText_def Let_def falsy_def split: sum.splits option.splits if_splits)

lemma first_text_Some:
  "first_text result = Some t \<longleftrightarrow>
    (\<exists>c cs ct p ps. candidates result = Some (c # cs) \<and> content c = Some ct
        \<and> parts ct = Some (p # ps) \<and> part_text p = Some t)"
  by (auto simp: first_text_def split: option.splits list.splits)

lemma generateText_Some:
  "snd (generateText svc prompt) = Inr (Some t) \<longleftrightarrow>
     (\<exists>result. genAI svc (text_request svc prompt) = Inr result
        \<and> first_text result = Some t \<and> t \<noteq> [])"
  by (auto simp: generateText_def Let_def falsy_def split: sum.splits option.splits)

lemma generateText_None_logged:
  "snd (generateText svc prompt) = Inr None \<Longrightarrow>
     \<exists>msg args. last (fst (generateText svc prompt)) = ConsoleError msg args"
  by (auto simp: generateText_def Let_def falsy_def split: sum.splits if_splits)

lemma generateText_one_request:
  "[ev \<leftarrow> fst (generateText svc prompt). case ev of GenerateContent req \<Rightarrow> True | _ \<Rightarrow> False]
     = [GenerateContent (text_request svc prompt)]"
  by (simp add: generateText_def Let_def split: sum.splits)

lemma generateSpeech_Some:
  "snd (generateSpeech fetch svc dtext) = Inr (Some b) \<longleftrightarrow>
     (\<exists>response. fetch (speech_url svc) (speech_request svc dtext) = Inr response
        \<and> ok response \<and> arrayBuffer response = Inr b)"
  by (auto simp: generateSpeech_def generateSpeech_try_def Let_def split: sum.splits)

lemma generateSpeech_None_logged:
  "snd (generateSpeech fetch svc dtext) = Inr None \<Longrightarrow>
     \<exists>e. last (fst (generateSpeech fetch svc dtext))
            = ConsoleError ''Error calling ElevenLabs TTS API:'' [Thrown e]"
  by (auto simp: generateSpeech_def generateSpeech_try_def Let_def split: sum.splits if_splits)

lemma generateSpeech_one_fetch:
  "[ev \<leftarrow> fst (generateSpeech fetch svc dtext). is_Fetch ev]
     = [Fetch (speech_url svc) (speech_request svc dtext)]"
  by (simp add: generateSpeech_def Let_def split: sum.splits)

lemma generateText_otherwise:
   "\<not> (\<exists>result c cs ct p ps t.
              genAI svc (text_request svc prompt) = Inr result
            \<and> candidates result = Some (c # cs) \<and> content c = Some ct
            \<and> parts ct = Some (p # ps) \<and> part_text p = Some t \<and> t \<noteq> [])
      \<Longrightarrow> snd (generateText svc prompt) = Inr None"
proof -
  assume none: "\<not> (\<exists>result c cs ct p ps t.
              genAI svc (text_request svc prompt) = Inr result
            \<and> candidates result = Some (c # cs) \<and> content c = Some ct
            \<and> parts ct = Some (p # ps) \<and> part_text p = Some t \<and> t \<noteq> [])"
  obtain res where res: "snd (generateText svc prompt) = Inr res"
    using generateText_resolves by blast
  show ?thesis
  proof (cases res)
    case None
    with res show ?thesis by simp
  next
    case (Some t)
    with res have "snd (generateText svc prompt) = Inr (Some t)" by simp
    then have "\<exists>result. genAI svc (text_request svc prompt) = Inr result
        \<and> first_text result = Some t \<and> t \<noteq> []"
      by (simp only: generateText_Some)
    with none show ?thesis unfolding first_text_Some by blast
  qed
qed

lemma generateSpeech_otherwise:
  "\<not> (\<exists>response b. fetch (speech_url svc) (speech_request svc dtext) = Inr response
               \<and> ok response \<and> arrayBuffer response = Inr b)
     \<Longrightarrow> snd (generateSpeech fetch svc dtext) = Inr None"
proof -
  assume none: "\<not> (\<exists>response b. fetch (speech_url svc) (speech_request svc dtext) = Inr response
               \<and> ok response \<and> arrayBuffer response = Inr b)"
  obtain res where res: "snd (generateSpeech fetch svc dtext) = Inr res"
    using generateSpeech_resolves by blast
  show ?thesis
  proof (cases res)
    case None
    with res show ?thesis by simp
  next
    case (Some b)
    with res have "snd (generateSpeech fetch svc dtext) = Inr (Some b)" by simp
    with none show ?thesis by (simp only: generateSpeech_Some) blast
  qed
qed

subsection \<open>generateText\<close>

text \<open>
  Claim C5.  For every prompt, \<open>generateText\<close> never raises; it resolves with a text
  exactly when the provider call resolved with a response whose first candidate has a
  content whose first part carries a non-empty text, and that text is the result; in
  every other case (the provider call threw, no candidate, no content, no part, no text
  or an empty text) it resolves with null, and then the last thing it did was to log a
  diagnostic.
\<close>

theorem generateText_contract:
  "(\<exists>res. snd (generateText svc prompt) = Inr res)
   \<and> (\<forall>t. snd (generateText svc prompt) = Inr (Some t) \<longleftrightarrow>
          (\<exists>result c cs ct p ps.
              genAI svc (text_request svc prompt) = Inr result
            \<and> candidates result = Some (c # cs) \<and> content c = Some ct
            \<and> parts ct = Some (p # ps) \<and> part_text p = Some t \<and> t \<noteq> []))
   \<and> (\<not> (\<exists>result c cs ct p ps t.
              genAI svc (text_request svc prompt) = Inr result
            \<and> candidates result = Some (c # cs) \<and> content c = Some ct
            \<and> parts ct = Some (p # ps) \<and> part_text p = Some t \<and> t \<noteq> [])
        \<longrightarrow> snd (generateText svc prompt) = Inr None)
   \<and> (snd (generateText svc prompt) = Inr None \<longrightarrow>
          (\<exists>msg args. last (fst (generateText svc prompt)) = ConsoleError msg args))"
proof -
  have "\<forall>t. snd (generateText svc prompt) = Inr (Some t) \<longleftrightarrow>
          (\<exists>result c cs ct p ps.
              genAI svc (text_request svc prompt) = Inr result
            \<and> candidates result = Some (c # cs) \<and> content c = Some ct
            \<and> parts ct = Some (p # ps) \<and> part_text p = Some t \<and> t \<noteq> [])"
    unfolding generateText_Some first_text_Some by blast
  moreover have "\<not> (\<exists>result c cs ct p ps t.
              genAI svc (text_request svc prompt) = Inr result
            \<and> candidates result = Some (c # cs) \<and> content c = Some ct
            \<and> parts ct = Some (p # ps) \<and> part_text p = Some t \<and> t \<noteq> [])
        \<longrightarrow> snd (generateText svc prompt) = Inr None"
    using generateText_otherwise [of svc prompt] by blast
  moreover have "snd (generateText svc prompt) = Inr None \<longrightarrow>
          (\<exists>msg args. last (fst (generateText svc prompt)) = ConsoleError msg args)"
    using generateText_None_logged by blast
  moreover note generateText_resolves [of svc prompt]
  ultimately show ?thesis by (intro conjI)
qed

text \<open>The successful and the filtered response of the client's own tests.\<close>

theorem generateText_contract_witness:
  "snd (generateText \<lparr> genAI = mockGenerateContent ''Hello, world!'', modelName = ''gemini-1.5-flash'' \<rparr>
          ''test prompt'') = Inr (Some ''Hello, world!'')
   \<and> snd (generateText \<lparr> genAI = filteredGenerateContent, modelName = ''gemini-1.5-flash'' \<rparr>
          ''test prompt'') = Inr None
   \<and> (\<exists>msg args. last (fst (generateText \<lparr> genAI = filteredGenerateContent,
          modelName = ''gemini-1.5-flash'' \<rparr> ''test prompt'')) = ConsoleError msg args)"
  using generateText_contract
          [of "\<lparr> genAI = mockGenerateContent ''Hello, world!'', modelName = ''gemini-1.5-flash'' \<rparr>"
              "''test prompt''"]
        generateText_contract
          [of "\<lparr> genAI = filteredGenerateContent, modelName = ''gemini-1.5-flash'' \<rparr>"
              "''test prompt''"]
  by (simp add: mockGenerateContent_def filteredGenerateContent_def generateText_def
        first_text_def falsy_def text_request_def)

subsection \<open>generateSpeech\<close>

text \<open>
  Claim C6.  On a client built by the constructor with key \<open>key\<close>, \<open>generateSpeech\<close>
  makes exactly one \<open>fetch\<close> call: a POST to the fixed endpoint followed by the fixed
  voice id, with header \<open>xi-api-key\<close> set to \<open>key\<close> and the JSON body
  \<open>{text, model_id, voice_settings: {stability: 0.5, similarity_boost: 0.5}}\<close>.  It resolves
  with bytes \<open>b\<close> exactly when the fetch resolved with a response whose \<open>ok\<close> flag is set and
  whose body read gives \<open>b\<close>, unmodified; otherwise (the fetch rejected, the status is not a
  success, reading the body rejected) it resolves with null after logging the error.  It
  never raises.
\<close>

theorem generateSpeech_contract:
  assumes "snd (ElevenLabsTTSService_constructor env (Some key) override) = Inr svc"
  shows
    "speech_url svc = ''https://api.elevenlabs.io/v1/text-to-speech/21m00Tcm4TlvDq8ikWAM''
     \<and> speech_request svc dtext =
          \<lparr> http_method = ''POST'',
            headers = [(''Accept'', ''audio/mpeg''), (''Content-Type'', ''application/json''),
                       (''xi-api-key'', key)],
            body = JObject [(''text'', JString dtext),
                            (''model_id'', JString (modelId svc)),
                            (''voice_settings'',
                               JObject [(''stability'', JNumber 0.5),
                                        (''similarity_boost'', JNumber 0.5)])] \<rparr>
     \<and> [ev \<leftarrow> fst (generateSpeech fetch svc dtext). is_Fetch ev]
          = [Fetch (speech_url svc) (speech_request svc dtext)]
     \<and> (\<forall>b. snd (generateSpeech fetch svc dtext) = Inr (Some b) \<longleftrightarrow>
            (\<exists>response. fetch (speech_url svc) (speech_request svc dtext) = Inr response
               \<and> ok response \<and> arrayBuffer response = Inr b))
     \<and> (\<not> (\<exists>response b. fetch (speech_url svc) (speech_request svc dtext) = Inr response
               \<and> ok response \<and> arrayBuffer response = Inr b)
          \<longrightarrow> snd (generateSpeech fetch svc dtext) = Inr None)
     \<and> (snd (generateSpeech fetch svc dtext) = Inr None \<longrightarrow>
            (\<exists>e. last (fst (generateSpeech fetch svc dtext))
                   = ConsoleError ''Error calling ElevenLabs TTS API:'' [Thrown e]))
     \<and> (\<exists>res. snd (generateSpeech fetch svc dtext) = Inr res)"
proof -
  from assms have svc: "apiKey svc = key" "voiceId svc = ''21m00Tcm4TlvDq8ikWAM''"
    by (auto simp: tts_constructed)
  have "speech_url svc = ''https://api.elevenlabs.io/v1/text-to-speech/21m00Tcm4TlvDq8ikWAM''"
    by (simp add: speech_url_def svc)
  moreover have "speech_request svc dtext =
          \<lparr> http_method = ''POST'',
            headers = [(''Accept'', ''audio/mpeg''), (''Content-Type'', ''application/json''),
                       (''xi-api-key'', key)],
            body = JObject [(''text'', JString dtext),
                            (''model_id'', JString (modelId svc)),
                            (''voice_settings'',
                               JObject [(''stability'', JNumber 0.5),
                                        (''similarity_boost'', JNumber 0.5)])] \<rparr>"
    by (simp add: speech_request_def svc)
  moreover note generateSpeech_one_fetch [of fetch svc dtext]
  moreover have "\<forall>b. snd (generateSpeech fetch svc dtext) = Inr (Some b) \<longleftrightarrow>
            (\<exists>response. fetch (speech_url svc) (speech_request svc dtext) = Inr response
               \<and> ok response \<and> arrayBuffer response = Inr b)"
    by (simp only: generateSpeech_Some) simp
  moreover have "\<not> (\<exists>response b. fetch (speech_url svc) (speech_request svc dtext) = Inr response
               \<and> ok response \<and> arrayBuffer response = Inr b)
          \<longrightarrow> snd (generateSpeech fetch svc dtext) = Inr None"
    using generateSpeech_otherwise [of fetch svc dtext] by blast
  moreover have "snd (generateSpeech fetch svc dtext) = Inr None \<longrightarrow>
            (\<exists>e. last (fst (generateSpeech fetch svc dtext))
                   = ConsoleError ''Error calling ElevenLabs TTS API:'' [Thrown e])"
    using generateSpeech_None_logged by blast
  moreover note generateSpeech_resolves [of fetch svc dtext]
  ultimately show ?thesis by (intro conjI)
qed

text \<open>The successful response and the 401 response of the client's own tests.\<close>

theorem generateSpeech_contract_witness:
  "snd (generateSpeech (mockedFetch (audio_response [1, 2, 3]))
          \<lparr> apiKey = ''test-elevenlabs-key'', voiceId = ''21m00Tcm4TlvDq8ikWAM'',
            modelId = ''eleven_multilingual_v2'' \<rparr> ''Hello'') = Inr (Some [1, 2, 3])
   \<and> snd (generateSpeech (mockedFetch unauthorized_response)
          \<lparr> apiKey = ''test-elevenlabs-key'', voiceId = ''21m00Tcm4TlvDq8ikWAM'',
            modelId = ''eleven_multilingual_v2'' \<rparr> ''Hello'') = Inr None
   \<and> [ev \<leftarrow> fst (generateSpeech (mockedFetch unauthorized_response)
          \<lparr> apiKey = ''test-elevenlabs-key'', voiceId = ''21m00Tcm4TlvDq8ikWAM'',
            modelId = ''eleven_multilingual_v2'' \<rparr> ''Hello''). is_Fetch ev]
       = [Fetch ''https://api.elevenlabs.io/v1/text-to-speech/21m00Tcm4TlvDq8ikWAM''
            \<lparr> http_method = ''POST'',
              headers = [(''Accept'', ''audio/mpeg''), (''Content-Type'', ''application/json''),
                         (''xi-api-key'', ''test-elevenlabs-key'')],
              body = JObject [(''text'', JString ''Hello''),
                              (''model_id'', JString ''eleven_multilingual_v2''),
                              (''voice_settings'',
                                 JObject [(''stability'', JNumber 0.5),
                                          (''similarity_boost'', JNumber 0.5)])] \<rparr>]"
proof -
  have built: "snd (ElevenLabsTTSService_constructor no_env (Some ''test-elevenlabs-key'') None)
      = Inr \<lparr> apiKey = ''test-elevenlabs-key'', voiceId = ''21m00Tcm4TlvDq8ikWAM'',
              modelId = ''eleven_multilingual_v2'' \<rparr>"
    by (simp add: ElevenLabsTTSService_constructor_def no_env_def js_or_def falsy_def
          or_literal_def)
  show ?thesis
    using generateSpeech_contract [OF built, of "''Hello''" "mockedFetch (audio_response [1, 2, 3])"]
          generateSpeech_contract [OF built, of "''Hello''" "mockedFetch unauthorized_response"]
          generateSpeech_resolves [of "mockedFetch unauthorized_response"
             "\<lparr> apiKey = ''test-elevenlabs-key'', voiceId = ''21m00Tcm4TlvDq8ikWAM'',
                modelId = ''eleven_multilingual_v2'' \<rparr>" "''Hello''"]
    by (auto simp: mockedFetch_def audio_response_def unauthorized_response_def)
qed

subsection \<open>Construction\<close>

text \<open>
  Claim C7.  For both clients the effective model identifier is fixed by the constructor:
  the constructor argument when one is given, else the environment variable when it is set,
  else the default (\<open>eleven_multilingual_v2\<close> for the speech client, \<open>gemini-1.5-flash\<close>
  for the text client).  Given or set means truthy in JavaScript; the empty string is the
  subject of claim C10.  The client is a value that no method changes: every request it
  later sends, whatever the text or prompt, carries the identifier stored at construction.
\<close>

theorem model_resolution:
  "(\<forall>tts. snd (ElevenLabsTTSService_constructor env key override) = Inr tts \<longrightarrow>
       modelId tts =
         (if \<not> falsy override then the override
          else if \<not> falsy (env ''ELEVENLABS_MODEL_ID'') then the (env ''ELEVENLABS_MODEL_ID'')
          else ''eleven_multilingual_v2'')
     \<and> (\<forall>fetch dtext.
           [ev \<leftarrow> fst (generateSpeech fetch tts dtext). is_Fetch ev]
             = [Fetch (speech_url tts) (speech_request tts dtext)]
         \<and> (\<exists>fields. body (speech_request tts dtext) = JObject fields
               \<and> map_of fields ''model_id'' = Some (JString (modelId tts)))))
   \<and> (\<forall>llm. snd (GeminiService_constructor sdk env gkey goverride) = Inr llm \<longrightarrow>
       modelName llm =
         (if \<not> falsy goverride then the goverride
          else if \<not> falsy (env ''GEMINI_MODEL_NAME'') then the (env ''GEMINI_MODEL_NAME'')
          else ''gemini-1.5-flash'')
     \<and> (\<forall>prompt.
           [ev \<leftarrow> fst (generateText llm prompt). case ev of GenerateContent req \<Rightarrow> True | _ \<Rightarrow> False]
             = [GenerateContent (text_request llm prompt)]
         \<and> model (text_request llm prompt) = modelName llm))"
proof (intro conjI allI impI)
  fix tts assume "snd (ElevenLabsTTSService_constructor env key override) = Inr tts"
  then show "modelId tts =
         (if \<not> falsy override then the override
          else if \<not> falsy (env ''ELEVENLABS_MODEL_ID'') then the (env ''ELEVENLABS_MODEL_ID'')
          else ''eleven_multilingual_v2'')"
    by (auto simp: tts_constructed or_literal_js_or)
next
  fix tts fetch dtext
  show "[ev \<leftarrow> fst (generateSpeech fetch tts dtext). is_Fetch ev]
             = [Fetch (speech_url tts) (speech_request tts dtext)]"
    by (rule generateSpeech_one_fetch)
  show "\<exists>fields. body (speech_request tts dtext) = JObject fields
               \<and> map_of fields ''model_id'' = Some (JString (modelId tts))"
    by (simp add: speech_request_def)
next
  fix llm assume "snd (GeminiService_constructor sdk env gkey goverride) = Inr llm"
  then show "modelName llm =
         (if \<not> falsy goverride then the goverride
          else if \<not> falsy (env ''GEMINI_MODEL_NAME'') then the (env ''GEMINI_MODEL_NAME'')
          else ''gemini-1.5-flash'')"
    by (auto simp: llm_constructed or_literal_js_or)
next
  fix llm prompt
  show "[ev \<leftarrow> fst (generateText llm prompt). case ev of GenerateContent req \<Rightarrow> True | _ \<Rightarrow> False]
             = [GenerateContent (text_request llm prompt)]"
    by (rule generateText_one_request)
  show "model (text_request llm prompt) = modelName llm"
    by (simp add: text_request_def)
qed

text \<open>The three cases of the speech client's tests, and the argument case for the text client.\<close>

theorem model_resolution_witness:
  "(\<exists>tts. snd (ElevenLabsTTSService_constructor
               (no_env(''ELEVENLABS_MODEL_ID'' := Some ''env-var-model''))
               (Some ''test-elevenlabs-key'') (Some ''constructor-model'')) = Inr tts
          \<and> modelId tts = ''constructor-model'')
   \<and> (\<exists>tts. snd (ElevenLabsTTSService_constructor
               (no_env(''ELEVENLABS_MODEL_ID'' := Some ''env-var-model''))
               (Some ''test-elevenlabs-key'') None) = Inr tts
          \<and> modelId tts = ''env-var-model'')
   \<and> (\<exists>tts. snd (ElevenLabsTTSService_constructor no_env
               (Some ''test-elevenlabs-key'') None) = Inr tts
          \<and> modelId tts = ''eleven_multilingual_v2'')
   \<and> (\<exists>llm. snd (GeminiService_constructor MockedGoogleGenAI no_env
               (Some ''test-api-key'') (Some ''test-model-via-constructor'')) = Inr llm
          \<and> modelName llm = ''test-model-via-constructor'')"
  using model_resolution
          [of "no_env(''ELEVENLABS_MODEL_ID'' := Some ''env-var-model'')"
              "Some ''test-elevenlabs-key''" "Some ''constructor-model''"
              MockedGoogleGenAI "Some ''test-api-key''" "Some ''test-model-via-constructor''"]
        model_resolution
          [of "no_env(''ELEVENLABS_MODEL_ID'' := Some ''env-var-model'')"
              "Some ''test-elevenlabs-key''" None
              MockedGoogleGenAI "Some ''test-api-key''" "Some ''test-model-via-constructor''"]
        model_resolution
          [of no_env "Some ''test-elevenlabs-key''" None
              MockedGoogleGenAI "Some ''test-api-key''" "Some ''test-model-via-constructor''"]
  by (simp add: ElevenLabsTTSService_constructor_def GeminiService_constructor_def
        MockedGoogleGenAI_def no_env_def falsy_def)

text \<open>
  Claim C8.  The speech client's constructor throws if and only if the API key is absent
  or empty.  For every non-empty key it returns the client, holding that key.  In either
  case the construction produces no event: it makes no provider call.
\<close>

theorem speech_client_key_required:
  "fst (ElevenLabsTTSService_constructor env key override) = []
   \<and> ((\<exists>e. snd (ElevenLabsTTSService_constructor env key override) = Inl e)
        \<longleftrightarrow> key = None \<or> key = Some [])
   \<and> (\<forall>k. key = Some k \<and> k \<noteq> [] \<longrightarrow>
         (\<exists>svc. snd (ElevenLabsTTSService_constructor env key override) = Inr svc \<and> apiKey svc = k))"
  by (simp add: ElevenLabsTTSService_constructor_def split: option.splits)

theorem speech_client_key_required_witness:
  "snd (ElevenLabsTTSService_constructor no_env (Some ''test-elevenlabs-key'') None)
     = Inr \<lparr> apiKey = ''test-elevenlabs-key'', voiceId = ''21m00Tcm4TlvDq8ikWAM'',
             modelId = ''eleven_multilingual_v2'' \<rparr>
   \<and> snd (ElevenLabsTTSService_constructor no_env (Some '''') None)
     = Inl (Error ''ElevenLabs API key is required.'')"
  using speech_client_key_required [of no_env "Some ''test-elevenlabs-key''" None]
        speech_client_key_required [of no_env "Some ''''" None]
  by (simp add: ElevenLabsTTSService_constructor_def or_literal_def js_or_def falsy_def no_env_def)

text \<open>
  Claim C9 says that constructing the text client with a missing or empty API key fails
  at once.  The constructor has no check of its own.  With the SDK mock of the repository's
  tests, whose constructor accepts any key, construction with an empty key and with no key
  succeeds.
\<close>

theorem text_client_key_unchecked:
  "snd (GeminiService_constructor MockedGoogleGenAI no_env (Some '''') None)
     = Inr \<lparr> genAI = mockGenerateContent ''ok'', modelName = ''gemini-1.5-flash'' \<rparr>
   \<and> snd (GeminiService_constructor MockedGoogleGenAI no_env None None)
     = Inr \<lparr> genAI = mockGenerateContent ''ok'', modelName = ''gemini-1.5-flash'' \<rparr>"
  by (simp add: GeminiService_constructor_def MockedGoogleGenAI_def no_env_def js_or_def
        falsy_def or_literal_def)

text \<open>
  Claim C9, amended.  The text client's constructor hands the key, unchanged, to the SDK's
  constructor, once.  It throws exactly when that constructor throws, with the same
  exception; when the SDK accepts the key (an empty or absent key included) construction
  succeeds and the client holds the handle the SDK returned.
\<close>

theorem text_client_key_delegated:
  "fst (GeminiService_constructor sdk env key override) = [NewGoogleGenAI key]
   \<and> (\<forall>e. snd (GeminiService_constructor sdk env key override) = Inl e \<longleftrightarrow> sdk key = Inl e)
   \<and> (\<forall>handle. sdk key = Inr handle \<longrightarrow>
         (\<exists>svc. snd (GeminiService_constructor sdk env key override) = Inr svc
                \<and> genAI svc = handle))"
  by (auto simp: GeminiService_constructor_def split: sum.splits)

theorem text_client_key_delegated_witness:
  "fst (GeminiService_constructor MockedGoogleGenAI no_env (Some '''') None)
     = [NewGoogleGenAI (Some '''')]
   \<and> (\<exists>svc. snd (GeminiService_constructor MockedGoogleGenAI no_env (Some '''') None) = Inr svc
          \<and> genAI svc = mockGenerateContent ''ok'')
   \<and> snd (GeminiService_constructor (\<lambda>k. Inl (Error ''API key must be set'')) no_env None None)
       = Inl (Error ''API key must be set'')"
  using text_client_key_delegated [of MockedGoogleGenAI no_env "Some ''''" None]
        text_client_key_delegated [of "\<lambda>k. Inl (Error ''API key must be set'')" no_env None None]
  by (simp add: MockedGoogleGenAI_def)

text \<open>
  Claim C10.  For both clients an empty-string model override is treated as an absent one,
  and an empty environment variable as an unset one: with both empty the default is used,
  and the effective model identifier is never the empty string.
\<close>

theorem empty_override_is_absent:
  "ElevenLabsTTSService_constructor env key (Some [])
     = ElevenLabsTTSService_constructor env key None
   \<and> ElevenLabsTTSService_constructor (env(''ELEVENLABS_MODEL_ID'' := Some [])) key None
     = ElevenLabsTTSService_constructor (env(''ELEVENLABS_MODEL_ID'' := None)) key None
   \<and> (\<forall>tts. snd (ElevenLabsTTSService_constructor (env(''ELEVENLABS_MODEL_ID'' := Some [])) key (Some []))
               = Inr tts \<longrightarrow> modelId tts = ''eleven_multilingual_v2'')
   \<and> (\<forall>tts. snd (ElevenLabsTTSService_constructor env key override) = Inr tts \<longrightarrow> modelId tts \<noteq> [])
   \<and> GeminiService_constructor sdk env gkey (Some [])
     = GeminiService_constructor sdk env gkey None
   \<and> GeminiService_constructor sdk (env(''GEMINI_MODEL_NAME'' := Some [])) gkey None
     = GeminiService_constructor sdk (env(''GEMINI_MODEL_NAME'' := None)) gkey None
   \<and> (\<forall>llm. snd (GeminiService_constructor sdk (env(''GEMINI_MODEL_NAME'' := Some [])) gkey (Some []))
               = Inr llm \<longrightarrow> modelName llm = ''gemini-1.5-flash'')
   \<and> (\<forall>llm. snd (GeminiService_constructor sdk env gkey goverride) = Inr llm \<longrightarrow> modelName llm \<noteq> [])"
proof (intro conjI allI impI)
  show "ElevenLabsTTSService_constructor env key (Some [])
     = ElevenLabsTTSService_constructor env key None"
    by (simp add: ElevenLabsTTSService_constructor_def split: option.splits)
  show "ElevenLabsTTSService_constructor (env(''ELEVENLABS_MODEL_ID'' := Some [])) key None
     = ElevenLabsTTSService_constructor (env(''ELEVENLABS_MODEL_ID'' := None)) key None"
    by (simp add: ElevenLabsTTSService_constructor_def js_or_def falsy_def split: option.splits)
  show "GeminiService_constructor sdk env gkey (Some [])
     = GeminiService_constructor sdk env gkey None"
    by (simp add: GeminiService_constructor_def split: sum.splits)
  show "GeminiService_constructor sdk (env(''GEMINI_MODEL_NAME'' := Some [])) gkey None
     = GeminiService_constructor sdk (env(''GEMINI_MODEL_NAME'' := None)) gkey None"
    by (simp add: GeminiService_constructor_def js_or_def falsy_def split: sum.splits)
next
  fix tts
  assume "snd (ElevenLabsTTSService_constructor (env(''ELEVENLABS_MODEL_ID'' := Some [])) key (Some []))
               = Inr tts"
  then show "modelId tts = ''eleven_multilingual_v2''"
    by (auto simp: tts_constructed js_or_def falsy_def or_literal_def)
next
  fix tts
  assume "snd (ElevenLabsTTSService_constructor env key override) = Inr tts"
  then show "modelId tts \<noteq> []"
    by (auto simp: tts_constructed or_literal_nonempty)
next
  fix llm
  assume "snd (GeminiService_constructor sdk (env(''GEMINI_MODEL_NAME'' := Some [])) gkey (Some []))
               = Inr llm"
  then show "modelName llm = ''gemini-1.5-flash''"
    by (auto simp: llm_constructed js_or_def falsy_def or_literal_def)
next
  fix llm
  assume "snd (GeminiService_constructor sdk env gkey goverride) = Inr llm"
  then show "modelName llm \<noteq> []"
    by (auto simp: llm_constructed or_literal_nonempty)
qed

theorem empty_override_is_absent_witness:
  "snd (ElevenLabsTTSService_constructor (no_env(''ELEVENLABS_MODEL_ID'' := Some ''env-var-model''))
          (Some ''test-elevenlabs-key'') (Some ''''))
     = Inr \<lparr> apiKey = ''test-elevenlabs-key'', voiceId = ''21m00Tcm4TlvDq8ikWAM'',
             modelId = ''env-var-model'' \<rparr>
   \<and> snd (GeminiService_constructor MockedGoogleGenAI (no_env(''GEMINI_MODEL_NAME'' := Some ''''))
          (Some ''test-api-key'') (Some ''''))
     = Inr \<lparr> genAI = mockGenerateContent ''ok'', modelName = ''gemini-1.5-flash'' \<rparr>"
  using empty_override_is_absent
          [of "no_env(''ELEVENLABS_MODEL_ID'' := Some ''env-var-model'')"
              "Some ''test-elevenlabs-key''" None MockedGoogleGenAI "Some ''test-api-key''" None]
        empty_override_is_absent
          [of no_env "Some ''test-elevenlabs-key''" None MockedGoogleGenAI "Some ''test-api-key''" None]
  by (simp add: ElevenLabsTTSService_constructor_def GeminiService_constructor_def
        MockedGoogleGenAI_def no_env_def js_or_def falsy_def or_literal_def)

section \<open>The orchestrator\<close>

text \<open>The manager of the tests is the one the constructor builds from the tests' options.\<close>

lemma test_manager_constructed:
  "AIManager_constructor (\<lambda>key. Inr gen) no_env adp
     \<lparr> geminiApiKey = ''fake-gemini-key'', elevenLabsApiKey = ''fake-elevenlabs-key'',
       geminiModelName = Some ''test-model-from-options'', elevenLabsModelId = None \<rparr>
   = ([NewGoogleGenAI (Some ''fake-gemini-key''), ConsoleLog ''AIManager initialized.''],
      Inr (test_manager gen adp))"
  by (simp add: AIManager_constructor_def GeminiService_constructor_def
        ElevenLabsTTSService_constructor_def test_manager_def no_env_def js_or_def falsy_def
        or_literal_def)

subsection \<open>Running the steps\<close>

lemma await_Inl [simp]: "m s = (Inl e, s') \<Longrightarrow> await m k s = (Inl e, s')"
  by (simp add: await_def)

lemma await_Inr [simp]: "m s = (Inr x, s') \<Longrightarrow> await m k s = k x s'"
  by (simp add: await_def)

lemma console_run [simp]: "console ev (h, tr) = (Inr (), (h, tr @ [ev]))"
  by (simp add: console_def)

lemma adapter_call_run [simp]:
  "f h = (r, h') \<Longrightarrow> adapter_call ev f (h, tr) = (r, (h', tr @ [ev]))"
  by (simp add: adapter_call_def)

lemma client_call_run [simp]: "client_call ev c (h, tr) = (snd c, (h, tr @ ev # fst c))"
  by (simp add: client_call_def)


lemma generateText_events:
  "ev \<in> set (fst (generateText svc prompt)) \<Longrightarrow>
     \<not> is_ShowDialogue ev \<and> \<not> is_GenerateSpeech ev \<and> \<not> is_PlayAudio ev \<and> \<not> is_Fetch ev"
  by (auto simp: generateText_def Let_def split: sum.splits if_splits)

lemma generateSpeech_events:
  "ev \<in> set (fst (generateSpeech fetch svc dtext)) \<Longrightarrow>
     \<not> is_ShowDialogue ev \<and> \<not> is_GenerateSpeech ev \<and> \<not> is_PlayAudio ev"
  by (auto simp: generateSpeech_def Let_def split: sum.splits if_splits)

lemma filter_generateText_events [simp]:
  "[ev \<leftarrow> fst (generateText svc prompt).
      is_ShowDialogue ev \<or> is_GenerateSpeech ev \<or> is_PlayAudio ev] = []"
  by (auto simp: filter_empty_conv dest: generateText_events)

lemma filter_generateSpeech_events [simp]:
  "[ev \<leftarrow> fst (generateSpeech fetch svc dtext).
      is_ShowDialogue ev \<or> is_GenerateSpeech ev \<or> is_PlayAudio ev] = []"
  by (auto simp: filter_empty_conv dest: generateSpeech_events)

lemma try_entity_fails:
  assumes "getEntityState (adapter mgr) eid h = (Inl e, h1)"
  shows "generateNpcDialogue_try mgr fetch eid (h, tr) = (Inl e, (h1, tr @ [GetEntityState eid]))"
  using assms by (simp add: generateNpcDialogue_try_def)

lemma try_player_fails:
  assumes "getEntityState (adapter mgr) eid h = (Inr npc, h1)"
    and "getPlayerState (adapter mgr) h1 = (Inl e, h2)"
  shows "generateNpcDialogue_try mgr fetch eid (h, tr)
           = (Inl e, (h2, tr @ [GetEntityState eid, GetPlayerState]))"
  using assms by (simp add: generateNpcDialogue_try_def)

lemma try_game_fails:
  assumes "getEntityState (adapter mgr) eid h = (Inr npc, h1)"
    and "getPlayerState (adapter mgr) h1 = (Inr pl, h2)"
    and "getGameState (adapter mgr) h2 = (Inl e, h3)"
  shows "generateNpcDialogue_try mgr fetch eid (h, tr)
           = (Inl e, (h3, tr @ [GetEntityState eid, GetPlayerState, GetGameState]))"
  using assms by (simp add: generateNpcDialogue_try_def)

lemma try_no_text:
  assumes "getEntityState (adapter mgr) eid h = (Inr npc, h1)"
    and "getPlayerState (adapter mgr) h1 = (Inr pl, h2)"
    and "getGameState (adapter mgr) h2 = (Inr gs, h3)"
    and "snd (generateText (llmService mgr) (build_prompt npc pl gs)) = Inr None"
  shows "generateNpcDialogue_try mgr fetch eid (h, tr)
           = (Inl (Error ''Failed to generate dialogue text.''),
              (h3, tr @ [GetEntityState eid, GetPlayerState, GetGameState,
                         GenerateText (build_prompt npc pl gs)]
                      @ fst (generateText (llmService mgr) (build_prompt npc pl gs))))"
  using assms by (simp add: generateNpcDialogue_try_def throw_def)

lemma try_display_fails:
  assumes "getEntityState (adapter mgr) eid h = (Inr npc, h1)"
    and "getPlayerState (adapter mgr) h1 = (Inr pl, h2)"
    and "getGameState (adapter mgr) h2 = (Inr gs, h3)"
    and "snd (generateText (llmService mgr) (build_prompt npc pl gs)) = Inr (Some dtext)"
    and "showDialogue (adapter mgr) dtext (dialogue_options eid) h3 = (Inl e, h4)"
  shows "generateNpcDialogue_try mgr fetch eid (h, tr)
           = (Inl e, (h4, tr @ [GetEntityState eid, GetPlayerState, GetGameState,
                                GenerateText (build_prompt npc pl gs)]
                             @ fst (generateText (llmService mgr) (build_prompt npc pl gs))
                             @ [ShowDialogue dtext (dialogue_options eid)]))"
  using assms generateText_nonempty [OF assms(4)]
  by (simp add: generateNpcDialogue_try_def)

lemma try_no_audio:
  assumes "getEntityState (adapter mgr) eid h = (Inr npc, h1)"
    and "getPlayerState (adapter mgr) h1 = (Inr pl, h2)"
    and "getGameState (adapter mgr) h2 = (Inr gs, h3)"
    and "snd (generateText (llmService mgr) (build_prompt npc pl gs)) = Inr (Some dtext)"
    and "showDialogue (adapter mgr) dtext (dialogue_options eid) h3 = (Inr (), h4)"
    and "snd (generateSpeech fetch (ttsService mgr) dtext) = Inr None"
  shows "generateNpcDialogue_try mgr fetch eid (h, tr)
           = (Inr (), (h4, tr @ [GetEntityState eid, GetPlayerState, GetGameState,
                                 GenerateText (build_prompt npc pl gs)]
                              @ fst (generateText (llmService mgr) (build_prompt npc pl gs))
                              @ [ShowDialogue dtext (dialogue_options eid), GenerateSpeech dtext]
                              @ fst (generateSpeech fetch (ttsService mgr) dtext)
                              @ [ConsoleError ''Failed to generate audio.'' []]))"
  using assms generateText_nonempty [OF assms(4)]
  by (simp add: generateNpcDialogue_try_def)

lemma try_audio:
  assumes "getEntityState (adapter mgr) eid h = (Inr npc, h1)"
    and "getPlayerState (adapter mgr) h1 = (Inr pl, h2)"
    and "getGameState (adapter mgr) h2 = (Inr gs, h3)"
    and "snd (generateText (llmService mgr) (build_prompt npc pl gs)) = Inr (Some dtext)"
    and "showDialogue (adapter mgr) dtext (dialogue_options eid) h3 = (Inr (), h4)"
    and "snd (generateSpeech fetch (ttsService mgr) dtext) = Inr (Some bytes)"
    and "playAudio (adapter mgr) bytes (audio_options eid) h4 = (r, h5)"
  shows "generateNpcDialogue_try mgr fetch eid (h, tr)
           = (r, (h5, tr @ [GetEntityState eid, GetPlayerState, GetGameState,
                            GenerateText (build_prompt npc pl gs)]
                         @ fst (generateText (llmService mgr) (build_prompt npc pl gs))
                         @ [ShowDialogue dtext (dialogue_options eid), GenerateSpeech dtext]
                         @ fst (generateSpeech fetch (ttsService mgr) dtext)
                         @ [PlayAudio bytes (audio_options eid)]))"
  using assms generateText_nonempty [OF assms(4)]
  by (simp add: generateNpcDialogue_try_def)

lemma run_caught:
  assumes "generateNpcDialogue_try mgr fetch eid
             (h, [ConsoleLog (''Generating dialogue for entity: '' @ eid)]) = (Inl e, (h1, tr1))"
    and "showDialogue (adapter mgr) ''...'' (dialogue_options eid) h1 = (r, h2)"
  shows "generateNpcDialogue mgr fetch eid (h, [])
           = (r, (h2, tr1 @ [ConsoleError (''[AIManager] Error generating dialogue for '' @ eid @ '':'')
                               [Thrown e],
                             ShowDialogue ''...'' (dialogue_options eid)]))"
  using assms
  by (simp add: generateNpcDialogue_def tryCatch_def generateNpcDialogue_catch_def)

lemma run_returned:
  assumes "generateNpcDialogue_try mgr fetch eid
             (h, [ConsoleLog (''Generating dialogue for entity: '' @ eid)]) = (Inr u, s1)"
  shows "generateNpcDialogue mgr fetch eid (h, []) = (Inr u, s1)"
  using assms by (simp add: generateNpcDialogue_def tryCatch_def)

lemmas run_defs =
  generateNpcDialogue_def generateNpcDialogue_try_def generateNpcDialogue_catch_def
  await_def tryCatch_def console_def adapter_call_def client_call_def throw_def
  test_manager_def MockGameAdapter_def UnknownEntityAdapter_def NoDialogueUiAdapter_def
  BrokenDialogueAdapter_def dialogue_options_def audio_options_def
  generateText_def generateSpeech_def generateSpeech_try_def first_text_def falsy_def
  mockGenerateContent_def filteredGenerateContent_def mockedFetch_def audio_response_def
  unauthorized_response_def

subsection \<open>The prompt\<close>

lemma sublist_entity_name: "sublist (EntityState.name npc) (build_prompt npc pl gs)"
proof -
  have "build_prompt npc pl gs
          = ([CHR 0x0A] @ indent @ ''You are '') @ EntityState.name npc
            @ ('', a character in a fantasy RPG.''
               @ [CHR 0x0A] @ indent @ ''Your personality is: ''
               @ or_literal (personality npc) ''a mysterious stranger'' @ ''.''
               @ [CHR 0x0A] @ indent @ ''You are talking to a player named '' @ PlayerState.name pl
               @ ''.''
               @ [CHR 0x0A] @ indent @ ''The player'' @ [CHR 0x27] @ ''s level is ''
               @ toString (level pl) @ ''.''
               @ [CHR 0x0A] @ indent @ ''Current situation: You are at '' @ location gs
               @ '', and it is '' @ timeOfDay gs @ ''.''
               @ [CHR 0x0A] @ indent
               @ [CHR 0x0A] @ indent
               @ ''Based on this, generate a single, short, engaging line of dialogue for the player. Be creative.'')"
    unfolding build_prompt_def by (simp only: append_assoc)
  then show ?thesis unfolding sublist_def by blast
qed

lemma sublist_player_name: "sublist (PlayerState.name pl) (build_prompt npc pl gs)"
proof -
  have "build_prompt npc pl gs
          = ([CHR 0x0A] @ indent @ ''You are '' @ EntityState.name npc
               @ '', a character in a fantasy RPG.''
               @ [CHR 0x0A] @ indent @ ''Your personality is: ''
               @ or_literal (personality npc) ''a mysterious stranger'' @ ''.''
               @ [CHR 0x0A] @ indent @ ''You are talking to a player named '')
            @ PlayerState.name pl
            @ (''.''
               @ [CHR 0x0A] @ indent @ ''The player'' @ [CHR 0x27] @ ''s level is ''
               @ toString (level pl) @ ''.''
               @ [CHR 0x0A] @ indent @ ''Current situation: You are at '' @ location gs
               @ '', and it is '' @ timeOfDay gs @ ''.''
               @ [CHR 0x0A] @ indent
               @ [CHR 0x0A] @ indent
               @ ''Based on this, generate a single, short, engaging line of dialogue for the player. Be creative.'')"
    unfolding build_prompt_def by (simp only: append_assoc)
  then show ?thesis unfolding sublist_def by blast
qed

subsection \<open>The failure path\<close>

text \<open>
  Claim C1 says that whenever an exception is raised during \<open>generateNpcDialogue\<close> it is
  caught, logged, answered with the fallback display, and that no exception ever reaches
  the caller.  The fallback display is itself a call on the host's adapter, made inside the
  handler and outside any \<open>try\<close>.  On a host whose entity lookup rejects and whose dialogue
  UI throws, the exception of the fallback display reaches the caller.
\<close>

theorem fallback_escapes:
  "fst (generateNpcDialogue
          (test_manager (mockGenerateContent ''Greetings, traveler.'') NoDialogueUiAdapter)
          (mockedFetch (audio_response [1, 2, 3])) ''npc-1'' ((), []))
     = Inl (Error ''dialogue UI unavailable'')"
  by (simp add: run_defs)

text \<open>
  Claim C1, amended.  For every entity id \<open>eid\<close>, whenever an exception \<open>e\<close> is raised inside
  the \<open>try\<close> block (a failing state fetch, a null text, a rejected \<open>playAudio\<close>, a throwing
  display), the orchestrator catches it, logs a diagnostic that contains \<open>eid\<close> and \<open>e\<close>, and
  then calls \<open>showDialogue\<close> with the text \<open>...\<close> and the options \<open>{entityId: eid}\<close>; these
  are the last two events.  The outcome of \<open>generateNpcDialogue\<close> is the outcome of that
  fallback call: it returns normally when the fallback display returns, and an exception
  thrown by the fallback display itself goes to the caller.
\<close>

theorem fallback_on_exception:
  assumes "generateNpcDialogue_try mgr fetch eid
             (h, [ConsoleLog (''Generating dialogue for entity: '' @ eid)]) = (Inl e, (h1, tr1))"
  shows "\<exists>r h2. showDialogue (adapter mgr) ''...''
                   \<lparr> DialogueOptions.entityId = eid, duration = None \<rparr> h1 = (r, h2)
           \<and> generateNpcDialogue mgr fetch eid (h, [])
               = (r, (h2, tr1 @ [ConsoleError (''[AIManager] Error generating dialogue for '' @ eid @ '':'')
                                   [Thrown e],
                                 ShowDialogue ''...''
                                   \<lparr> DialogueOptions.entityId = eid, duration = None \<rparr>]))"
proof -
  obtain r h2 where fb: "showDialogue (adapter mgr) ''...'' (dialogue_options eid) h1 = (r, h2)"
    by force
  from run_caught [OF assms fb] fb show ?thesis
    by (simp add: dialogue_options_def)
qed

text \<open>The entity lookup rejects and the dialogue UI works: the run returns normally.\<close>

theorem fallback_on_exception_witness:
  "generateNpcDialogue
     (test_manager (mockGenerateContent ''Greetings, traveler.'') UnknownEntityAdapter)
     (mockedFetch (audio_response [1, 2, 3])) ''npc-1'' ((), [])
     = (Inr (), ((), [ConsoleLog ''Generating dialogue for entity: npc-1'',
                      GetEntityState ''npc-1'',
                      ConsoleError ''[AIManager] Error generating dialogue for npc-1:''
                        [Thrown (Error ''unknown entity'')],
                      ShowDialogue ''...'' \<lparr> DialogueOptions.entityId = ''npc-1'', duration = None \<rparr>]))"
proof -
  have "generateNpcDialogue_try
          (test_manager (mockGenerateContent ''Greetings, traveler.'') UnknownEntityAdapter)
          (mockedFetch (audio_response [1, 2, 3])) ''npc-1''
          ((), [ConsoleLog (''Generating dialogue for entity: '' @ ''npc-1'')])
        = (Inl (Error ''unknown entity''),
           ((), [ConsoleLog ''Generating dialogue for entity: npc-1'', GetEntityState ''npc-1'']))"
    by (simp add: run_defs)
  from fallback_on_exception [OF this] show ?thesis
    by (simp add: test_manager_def UnknownEntityAdapter_def MockGameAdapter_def)
qed

text \<open>
  Claim C2.  If the three context fetches resolve and \<open>generateText\<close> resolves with null for
  the prompt built from them, then among the display, speech and playback calls of the
  invocation there is exactly one, \<open>showDialogue\<close> with the text \<open>...\<close> and the options
  \<open>{entityId: eid}\<close>: neither \<open>generateSpeech\<close> nor \<open>playAudio\<close> is called, and no \<open>fetch\<close>
  is made.
\<close>

theorem null_text_fallback:
  assumes "getEntityState (adapter mgr) eid h = (Inr npc, h1)"
    and "getPlayerState (adapter mgr) h1 = (Inr pl, h2)"
    and "getGameState (adapter mgr) h2 = (Inr gs, h3)"
    and "snd (generateText (llmService mgr) (build_prompt npc pl gs)) = Inr None"
  shows "[ev \<leftarrow> snd (snd (generateNpcDialogue mgr fetch eid (h, []))).
            is_ShowDialogue ev \<or> is_GenerateSpeech ev \<or> is_PlayAudio ev]
           = [ShowDialogue ''...'' \<lparr> DialogueOptions.entityId = eid, duration = None \<rparr>]
         \<and> (\<forall>ev \<in> set (snd (snd (generateNpcDialogue mgr fetch eid (h, [])))). \<not> is_Fetch ev)"
proof -
  obtain r h4 where "showDialogue (adapter mgr) ''...'' (dialogue_options eid) h3 = (r, h4)"
    by force
  from run_caught [OF try_no_text [OF assms] this]
  have tr: "snd (snd (generateNpcDialogue mgr fetch eid (h, [])))
          = ([ConsoleLog (''Generating dialogue for entity: '' @ eid)]
             @ [GetEntityState eid, GetPlayerState, GetGameState,
                GenerateText (build_prompt npc pl gs)]
             @ fst (generateText (llmService mgr) (build_prompt npc pl gs)))
            @ [ConsoleError (''[AIManager] Error generating dialogue for '' @ eid @ '':'')
                 [Thrown (Error ''Failed to generate dialogue text.'')],
               ShowDialogue ''...'' \<lparr> DialogueOptions.entityId = eid, duration = None \<rparr>]"
    by (simp add: dialogue_options_def)
  have "[ev \<leftarrow> snd (snd (generateNpcDialogue mgr fetch eid (h, []))).
            is_ShowDialogue ev \<or> is_GenerateSpeech ev \<or> is_PlayAudio ev]
           = [ShowDialogue ''...'' \<lparr> DialogueOptions.entityId = eid, duration = None \<rparr>]"
    unfolding tr by simp
  moreover have "\<forall>ev \<in> set (snd (snd (generateNpcDialogue mgr fetch eid (h, [])))). \<not> is_Fetch ev"
    unfolding tr using generateText_events by auto
  ultimately show ?thesis by blast
qed

theorem null_text_fallback_witness:
  "[ev \<leftarrow> snd (snd (generateNpcDialogue (test_manager filteredGenerateContent MockGameAdapter)
                         (mockedFetch (audio_response [1, 2, 3])) ''npc-1'' ((), []))).
       is_ShowDialogue ev \<or> is_GenerateSpeech ev \<or> is_PlayAudio ev]
     = [ShowDialogue ''...'' \<lparr> DialogueOptions.entityId = ''npc-1'', duration = None \<rparr>]"
proof -
  let ?mgr = "test_manager filteredGenerateContent MockGameAdapter"
  let ?npc = "\<lparr> EntityState.name = ''Mysterious Old Man'', personality = Some ''cryptic and wise'' \<rparr>"
  let ?pl = "\<lparr> PlayerState.name = ''Eldrin'', level = Number ''5'' \<rparr>"
  let ?gs = "\<lparr> location = ''the Whispering Woods'', timeOfDay = ''dusk'' \<rparr>"
  have f1: "getEntityState (adapter ?mgr) ''npc-1'' () = (Inr ?npc, ())"
    and f2: "getPlayerState (adapter ?mgr) () = (Inr ?pl, ())"
    and f3: "getGameState (adapter ?mgr) () = (Inr ?gs, ())"
    by (simp_all add: test_manager_def MockGameAdapter_def)
  have f4: "snd (generateText (llmService ?mgr) (build_prompt ?npc ?pl ?gs)) = Inr None"
    by (simp add: test_manager_def generateText_def filteredGenerateContent_def first_text_def
          falsy_def)
  from null_text_fallback [OF f1 f2 f3 f4, of "mockedFetch (audio_response [1, 2, 3])"]
  show ?thesis by simp
qed

subsection \<open>Text without audio\<close>

text \<open>
  Claim C3 says that when \<open>generateText\<close> resolves with a text \<open>t\<close> and \<open>generateSpeech(t)\<close>
  resolves with null, \<open>t\<close> is displayed, the fallback is not, and the invocation returns
  normally.  The display of \<open>t\<close> is a call on the host's adapter inside the \<open>try\<close> block, made
  before the speech client is called.  On a host that returns the three records and whose
  dialogue UI throws, with a text client that resolves with a text and a speech client
  that resolves with null for it, the speech client is never reached: the display of the
  text is followed by the fallback display, and the invocation does not return normally.
\<close>

theorem display_failure_shows_fallback:
  "snd (generateText
          (llmService (test_manager (mockGenerateContent ''My voice is gone, but my words remain.'')
                         BrokenDialogueAdapter))
          (build_prompt
             \<lparr> EntityState.name = ''Mysterious Old Man'', personality = Some ''cryptic and wise'' \<rparr>
             \<lparr> PlayerState.name = ''Eldrin'', level = Number ''5'' \<rparr>
             \<lparr> location = ''the Whispering Woods'', timeOfDay = ''dusk'' \<rparr>))
     = Inr (Some ''My voice is gone, but my words remain.'')
   \<and> snd (generateSpeech (mockedFetch unauthorized_response)
          (ttsService (test_manager (mockGenerateContent ''My voice is gone, but my words remain.'')
                         BrokenDialogueAdapter))
          ''My voice is gone, but my words remain.'') = Inr None
   \<and> filter is_ShowDialogue
         (snd (snd (generateNpcDialogue
            (test_manager (mockGenerateContent ''My voice is gone, but my words remain.'')
               BrokenDialogueAdapter)
            (mockedFetch unauthorized_response) ''npc-1'' ((), []))))
     = [ShowDialogue ''My voice is gone, but my words remain.''
          \<lparr> DialogueOptions.entityId = ''npc-1'', duration = None \<rparr>,
        ShowDialogue ''...'' \<lparr> DialogueOptions.entityId = ''npc-1'', duration = None \<rparr>]
   \<and> filter is_GenerateSpeech
         (snd (snd (generateNpcDialogue
            (test_manager (mockGenerateContent ''My voice is gone, but my words remain.'')
               BrokenDialogueAdapter)
            (mockedFetch unauthorized_response) ''npc-1'' ((), [])))) = []
   \<and> fst (generateNpcDialogue
            (test_manager (mockGenerateContent ''My voice is gone, but my words remain.'')
               BrokenDialogueAdapter)
            (mockedFetch unauthorized_response) ''npc-1'' ((), []))
     = Inl (Error ''dialogue UI unavailable'')"
  by (simp add: run_defs)

text \<open>
  Claim C3, amended.  For every entity id \<open>eid\<close>: if the three context fetches resolve,
  \<open>generateText\<close> resolves with a text \<open>t\<close> for the prompt built from them, the call
  \<open>showDialogue(t, {entityId: eid})\<close> returns, and \<open>generateSpeech(t)\<close> resolves with null,
  then the invocation returns normally and its events are, in this order: the opening log,
  the three fetches, the \<open>generateText\<close> call, \<open>showDialogue(t, {entityId: eid})\<close>, the
  \<open>generateSpeech\<close> call with \<open>t\<close>, and last the diagnostic \<open>Failed to generate audio.\<close>
  The only display or playback call is the display of \<open>t\<close>: no \<open>playAudio\<close>, no fallback
  display.  The host is left in the state in which the display of \<open>t\<close> left it.
\<close>

theorem text_without_audio:
  assumes f1: "getEntityState (adapter mgr) eid h = (Inr npc, h1)"
    and f2: "getPlayerState (adapter mgr) h1 = (Inr pl, h2)"
    and f3: "getGameState (adapter mgr) h2 = (Inr gs, h3)"
    and gen: "snd (generateText (llmService mgr) (build_prompt npc pl gs)) = Inr (Some t)"
    and shown: "showDialogue (adapter mgr) t
                  \<lparr> DialogueOptions.entityId = eid, duration = None \<rparr> h3 = (Inr (), h4)"
    and null: "snd (generateSpeech fetch (ttsService mgr) t) = Inr None"
  shows "generateNpcDialogue mgr fetch eid (h, [])
           = (Inr (), (h4, [ConsoleLog (''Generating dialogue for entity: '' @ eid),
                            GetEntityState eid, GetPlayerState, GetGameState,
                            GenerateText (build_prompt npc pl gs)]
                           @ fst (generateText (llmService mgr) (build_prompt npc pl gs))
                           @ [ShowDialogue t \<lparr> DialogueOptions.entityId = eid, duration = None \<rparr>,
                              GenerateSpeech t]
                           @ fst (generateSpeech fetch (ttsService mgr) t)
                           @ [ConsoleError ''Failed to generate audio.'' []]))
         \<and> [ev \<leftarrow> snd (snd (generateNpcDialogue mgr fetch eid (h, []))).
               is_ShowDialogue ev \<or> is_GenerateSpeech ev \<or> is_PlayAudio ev]
             = [ShowDialogue t \<lparr> DialogueOptions.entityId = eid, duration = None \<rparr>,
                GenerateSpeech t]"
proof -
  from shown have shown': "showDialogue (adapter mgr) t (dialogue_options eid) h3 = (Inr (), h4)"
    by (simp add: dialogue_options_def)
  from run_returned [OF try_no_audio [OF f1 f2 f3 gen shown' null]]
  have run: "generateNpcDialogue mgr fetch eid (h, [])
           = (Inr (), (h4, [ConsoleLog (''Generating dialogue for entity: '' @ eid),
                            GetEntityState eid, GetPlayerState, GetGameState,
                            GenerateText (build_prompt npc pl gs)]
                           @ fst (generateText (llmService mgr) (build_prompt npc pl gs))
                           @ [ShowDialogue t \<lparr> DialogueOptions.entityId = eid, duration = None \<rparr>,
                              GenerateSpeech t]
                           @ fst (generateSpeech fetch (ttsService mgr) t)
                           @ [ConsoleError ''Failed to generate audio.'' []]))"
    by (simp add: dialogue_options_def)
  have "[ev \<leftarrow> snd (snd (generateNpcDialogue mgr fetch eid (h, []))).
               is_ShowDialogue ev \<or> is_GenerateSpeech ev \<or> is_PlayAudio ev]
             = [ShowDialogue t \<lparr> DialogueOptions.entityId = eid, duration = None \<rparr>,
                GenerateSpeech t]"
    unfolding run by simp
  with run show ?thesis by blast
qed

text \<open>The test of the repository: \<open>MockGameAdapter\<close> and a speech provider that answers 401.\<close>

theorem text_without_audio_witness:
  "fst (generateNpcDialogue
          (test_manager (mockGenerateContent ''My voice is gone, but my words remain.'') MockGameAdapter)
          (mockedFetch unauthorized_response) ''npc-1'' ((), [])) = Inr ()
   \<and> [ev \<leftarrow> snd (snd (generateNpcDialogue
          (test_manager (mockGenerateContent ''My voice is gone, but my words remain.'') MockGameAdapter)
          (mockedFetch unauthorized_response) ''npc-1'' ((), []))).
        is_ShowDialogue ev \<or> is_GenerateSpeech ev \<or> is_PlayAudio ev]
     = [ShowDialogue ''My voice is gone, but my words remain.''
          \<lparr> DialogueOptions.entityId = ''npc-1'', duration = None \<rparr>,
        GenerateSpeech ''My voice is gone, but my words remain.'']"
proof -
  let ?t = "''My voice is gone, but my words remain.''"
  let ?mgr = "test_manager (mockGenerateContent ?t) MockGameAdapter"
  let ?npc = "\<lparr> EntityState.name = ''Mysterious Old Man'', personality = Some ''cryptic and wise'' \<rparr>"
  let ?pl = "\<lparr> PlayerState.name = ''Eldrin'', level = Number ''5'' \<rparr>"
  let ?gs = "\<lparr> location = ''the Whispering Woods'', timeOfDay = ''dusk'' \<rparr>"
  have f1: "getEntityState (adapter ?mgr) ''npc-1'' () = (Inr ?npc, ())"
    and f2: "getPlayerState (adapter ?mgr) () = (Inr ?pl, ())"
    and f3: "getGameState (adapter ?mgr) () = (Inr ?gs, ())"
    and shown: "showDialogue (adapter ?mgr) ?t
                  \<lparr> DialogueOptions.entityId = ''npc-1'', duration = None \<rparr> () = (Inr (), ())"
    by (simp_all add: test_manager_def MockGameAdapter_def)
  have gen: "snd (generateText (llmService ?mgr) (build_prompt ?npc ?pl ?gs)) = Inr (Some ?t)"
    by (simp add: test_manager_def generateText_def mockGenerateContent_def first_text_def
          falsy_def)
  have null: "snd (generateSpeech (mockedFetch unauthorized_response) (ttsService ?mgr) ?t) = Inr None"
    by (simp add: test_manager_def generateSpeech_def generateSpeech_try_def mockedFetch_def
          unauthorized_response_def)
  from text_without_audio [OF f1 f2 f3 gen shown null] show ?thesis by simp
qed

subsection \<open>Text and audio\<close>

text \<open>
  Claim C4 says that when the adapter returns the stated records and both provider clients
  succeed, \<open>showDialogue(t, {entityId})\<close> is followed by \<open>playAudio(b, {entityId})\<close>.  On a
  host that returns the stated records and whose dialogue UI throws, with a text client
  that resolves with a text and a speech client that resolves with bytes for it, neither
  the speech client nor \<open>playAudio\<close> is called.
\<close>

theorem display_failure_skips_playback:
  "getEntityState BrokenDialogueAdapter ''npc-1'' ()
     = (Inr \<lparr> EntityState.name = ''Mysterious Old Man'', personality = Some ''cryptic and wise'' \<rparr>, ())
   \<and> getPlayerState BrokenDialogueAdapter () = (Inr \<lparr> PlayerState.name = ''Eldrin'', level = Number ''5'' \<rparr>, ())
   \<and> getGameState BrokenDialogueAdapter ()
     = (Inr \<lparr> location = ''the Whispering Woods'', timeOfDay = ''dusk'' \<rparr>, ())
   \<and> snd (generateText
          (llmService (test_manager (mockGenerateContent ''Greetings, traveler.'') BrokenDialogueAdapter))
          (build_prompt
             \<lparr> EntityState.name = ''Mysterious Old Man'', personality = Some ''cryptic and wise'' \<rparr>
             \<lparr> PlayerState.name = ''Eldrin'', level = Number ''5'' \<rparr>
             \<lparr> location = ''the Whispering Woods'', timeOfDay = ''dusk'' \<rparr>))
     = Inr (Some ''Greetings, traveler.'')
   \<and> snd (generateSpeech (mockedFetch (audio_response [0, 0, 0, 0, 0, 0, 0, 0]))
          (ttsService (test_manager (mockGenerateContent ''Greetings, traveler.'') BrokenDialogueAdapter))
          ''Greetings, traveler.'') = Inr (Some [0, 0, 0, 0, 0, 0, 0, 0])
   \<and> filter is_PlayAudio
         (snd (snd (generateNpcDialogue
            (test_manager (mockGenerateContent ''Greetings, traveler.'') BrokenDialogueAdapter)
            (mockedFetch (audio_response [0, 0, 0, 0, 0, 0, 0, 0])) ''npc-1'' ((), [])))) = []
   \<and> filter is_GenerateSpeech
         (snd (snd (generateNpcDialogue
            (test_manager (mockGenerateContent ''Greetings, traveler.'') BrokenDialogueAdapter)
            (mockedFetch (audio_response [0, 0, 0, 0, 0, 0, 0, 0])) ''npc-1'' ((), [])))) = []"
  by (simp add: run_defs)

text \<open>
  Claim C4, amended.  For every entity id \<open>eid\<close>: if the adapter returns the entity, player
  and world records \<open>npc\<close>, \<open>pl\<close>, \<open>gs\<close>, \<open>generateText\<close> resolves with \<open>t\<close> for the prompt
  built from them, the call \<open>showDialogue(t, {entityId: eid})\<close> returns, and
  \<open>generateSpeech(t)\<close> resolves with the bytes \<open>b\<close>, then the prompt given to \<open>generateText\<close>
  contains the entity's name and the player's name, and the events of the invocation
  are, in this order: the opening log, the three fetches, the \<open>generateText\<close> call,
  \<open>showDialogue(t, {entityId: eid})\<close>, the \<open>generateSpeech\<close> call with exactly \<open>t\<close>,
  \<open>playAudio(b, {entityId: eid})\<close>, and after it no further speech or playback call.  When
  the playback resolves, it is the last event and the invocation returns normally.
\<close>

theorem display_then_play:
  assumes f1: "getEntityState (adapter mgr) eid h = (Inr npc, h1)"
    and f2: "getPlayerState (adapter mgr) h1 = (Inr pl, h2)"
    and f3: "getGameState (adapter mgr) h2 = (Inr gs, h3)"
    and gen: "snd (generateText (llmService mgr) (build_prompt npc pl gs)) = Inr (Some t)"
    and shown: "showDialogue (adapter mgr) t
                  \<lparr> DialogueOptions.entityId = eid, duration = None \<rparr> h3 = (Inr (), h4)"
    and audio: "snd (generateSpeech fetch (ttsService mgr) t) = Inr (Some b)"
  shows "sublist (EntityState.name npc) (build_prompt npc pl gs)
         \<and> sublist (PlayerState.name pl) (build_prompt npc pl gs)
         \<and> (\<exists>rest. snd (snd (generateNpcDialogue mgr fetch eid (h, [])))
                  = [ConsoleLog (''Generating dialogue for entity: '' @ eid),
                     GetEntityState eid, GetPlayerState, GetGameState,
                     GenerateText (build_prompt npc pl gs)]
                    @ fst (generateText (llmService mgr) (build_prompt npc pl gs))
                    @ [ShowDialogue t \<lparr> DialogueOptions.entityId = eid, duration = None \<rparr>,
                       GenerateSpeech t]
                    @ fst (generateSpeech fetch (ttsService mgr) t)
                    @ PlayAudio b \<lparr> AudioOptions.entityId = Some eid \<rparr> # rest
                \<and> (\<forall>ev \<in> set rest. \<not> is_GenerateSpeech ev \<and> \<not> is_PlayAudio ev)
                \<and> (\<forall>h5. playAudio (adapter mgr) b \<lparr> AudioOptions.entityId = Some eid \<rparr> h4
                            = (Inr (), h5)
                       \<longrightarrow> rest = [] \<and> fst (generateNpcDialogue mgr fetch eid (h, [])) = Inr ()))
         \<and> [ev \<leftarrow> snd (snd (generateNpcDialogue mgr fetch eid (h, []))).
               is_GenerateSpeech ev \<or> is_PlayAudio ev]
             = [GenerateSpeech t, PlayAudio b \<lparr> AudioOptions.entityId = Some eid \<rparr>]
         \<and> (\<exists>later. [ev \<leftarrow> snd (snd (generateNpcDialogue mgr fetch eid (h, []))).
                         is_ShowDialogue ev \<or> is_PlayAudio ev]
                      = ShowDialogue t \<lparr> DialogueOptions.entityId = eid, duration = None \<rparr>
                        # PlayAudio b \<lparr> AudioOptions.entityId = Some eid \<rparr> # later)"
proof -
  let ?tr = "snd (snd (generateNpcDialogue mgr fetch eid (h, [])))"
  let ?pre = "[ConsoleLog (''Generating dialogue for entity: '' @ eid),
               GetEntityState eid, GetPlayerState, GetGameState,
               GenerateText (build_prompt npc pl gs)]
              @ fst (generateText (llmService mgr) (build_prompt npc pl gs))
              @ [ShowDialogue t \<lparr> DialogueOptions.entityId = eid, duration = None \<rparr>,
                 GenerateSpeech t]
              @ fst (generateSpeech fetch (ttsService mgr) t)
              @ [PlayAudio b \<lparr> AudioOptions.entityId = Some eid \<rparr>]"
  from shown have shown': "showDialogue (adapter mgr) t (dialogue_options eid) h3 = (Inr (), h4)"
    by (simp add: dialogue_options_def)
  obtain r5 h5 where play: "playAudio (adapter mgr) b (audio_options eid) h4 = (r5, h5)" by force
  have body: "generateNpcDialogue_try mgr fetch eid
                (h, [ConsoleLog (''Generating dialogue for entity: '' @ eid)]) = (r5, (h5, ?pre))"
    using try_audio [OF f1 f2 f3 gen shown' audio play,
                     of "[ConsoleLog (''Generating dialogue for entity: '' @ eid)]"]
    by (simp add: dialogue_options_def audio_options_def)
  have ex: "\<exists>rest. ?tr = ?pre @ rest
              \<and> (\<forall>ev \<in> set rest. \<not> is_GenerateSpeech ev \<and> \<not> is_PlayAudio ev)
              \<and> (\<forall>k. playAudio (adapter mgr) b \<lparr> AudioOptions.entityId = Some eid \<rparr> h4
                            = (Inr (), k)
                     \<longrightarrow> rest = [] \<and> fst (generateNpcDialogue mgr fetch eid (h, [])) = Inr ())"
  proof (cases r5)
    case (Inr u)
    with body have "generateNpcDialogue_try mgr fetch eid
                (h, [ConsoleLog (''Generating dialogue for entity: '' @ eid)]) = (Inr u, (h5, ?pre))"
      by simp
    from run_returned [OF this] show ?thesis by (intro exI [of _ "[]"]) simp
  next
    case (Inl e)
    obtain rf hf where fb: "showDialogue (adapter mgr) ''...'' (dialogue_options eid) h5 = (rf, hf)"
      by force
    from body Inl have "generateNpcDialogue_try mgr fetch eid
                (h, [ConsoleLog (''Generating dialogue for entity: '' @ eid)]) = (Inl e, (h5, ?pre))"
      by simp
    from run_caught [OF this fb]
    have "?tr = ?pre @ [ConsoleError (''[AIManager] Error generating dialogue for '' @ eid @ '':'')
                          [Thrown e],
                        ShowDialogue ''...'' (dialogue_options eid)]"
      by simp
    moreover have "\<forall>k. playAudio (adapter mgr) b \<lparr> AudioOptions.entityId = Some eid \<rparr> h4
                      \<noteq> (Inr (), k)"
      using play Inl by (simp add: audio_options_def)
    ultimately show ?thesis
      by (intro exI [of _ "[ConsoleError (''[AIManager] Error generating dialogue for '' @ eid @ '':'')
                              [Thrown e],
                            ShowDialogue ''...'' (dialogue_options eid)]"]) simp
  qed
  then obtain rest where tr: "?tr = ?pre @ rest"
    and rest: "\<forall>ev \<in> set rest. \<not> is_GenerateSpeech ev \<and> \<not> is_PlayAudio ev"
    and finished: "\<forall>k. playAudio (adapter mgr) b \<lparr> AudioOptions.entityId = Some eid \<rparr> h4
                            = (Inr (), k)
                     \<longrightarrow> rest = [] \<and> fst (generateNpcDialogue mgr fetch eid (h, [])) = Inr ()"
    by blast
  have q1: "[ev \<leftarrow> fst (generateText (llmService mgr) (build_prompt npc pl gs)).
               is_GenerateSpeech ev \<or> is_PlayAudio ev] = []"
    and q2: "[ev \<leftarrow> fst (generateText (llmService mgr) (build_prompt npc pl gs)).
               is_ShowDialogue ev \<or> is_PlayAudio ev] = []"
    using generateText_events by (fastforce simp: filter_empty_conv)+
  have q3: "[ev \<leftarrow> fst (generateSpeech fetch (ttsService mgr) t).
               is_GenerateSpeech ev \<or> is_PlayAudio ev] = []"
    and q4: "[ev \<leftarrow> fst (generateSpeech fetch (ttsService mgr) t).
               is_ShowDialogue ev \<or> is_PlayAudio ev] = []"
    using generateSpeech_events by (fastforce simp: filter_empty_conv)+
  have calls: "[ev \<leftarrow> ?tr. is_GenerateSpeech ev \<or> is_PlayAudio ev]
                 = [GenerateSpeech t, PlayAudio b \<lparr> AudioOptions.entityId = Some eid \<rparr>]"
    unfolding tr using rest by (simp add: q1 q3 filter_empty_conv)
  have order: "\<exists>later. [ev \<leftarrow> ?tr. is_ShowDialogue ev \<or> is_PlayAudio ev]
                 = ShowDialogue t \<lparr> DialogueOptions.entityId = eid, duration = None \<rparr>
                   # PlayAudio b \<lparr> AudioOptions.entityId = Some eid \<rparr> # later"
    unfolding tr by (simp add: q2 q4)
  have trace: "\<exists>rest. ?tr
                  = [ConsoleLog (''Generating dialogue for entity: '' @ eid),
                     GetEntityState eid, GetPlayerState, GetGameState,
                     GenerateText (build_prompt npc pl gs)]
                    @ fst (generateText (llmService mgr) (build_prompt npc pl gs))
                    @ [ShowDialogue t \<lparr> DialogueOptions.entityId = eid, duration = None \<rparr>,
                       GenerateSpeech t]
                    @ fst (generateSpeech fetch (ttsService mgr) t)
                    @ PlayAudio b \<lparr> AudioOptions.entityId = Some eid \<rparr> # rest
                \<and> (\<forall>ev \<in> set rest. \<not> is_GenerateSpeech ev \<and> \<not> is_PlayAudio ev)
                \<and> (\<forall>h5. playAudio (adapter mgr) b \<lparr> AudioOptions.entityId = Some eid \<rparr> h4
                            = (Inr (), h5)
                       \<longrightarrow> rest = [] \<and> fst (generateNpcDialogue mgr fetch eid (h, [])) = Inr ())"
    using tr rest finished by (intro exI [of _ rest]) simp
  from trace calls order show ?thesis
    using sublist_entity_name [of npc pl gs] sublist_player_name [of pl npc gs] by blast
qed

text \<open>The end-to-end test: \<open>MockGameAdapter\<close>, the text \<open>Greetings, traveler.\<close> and eight bytes.\<close>

theorem display_then_play_witness:
  "sublist ''Mysterious Old Man''
     (build_prompt \<lparr> EntityState.name = ''Mysterious Old Man'', personality = Some ''cryptic and wise'' \<rparr>
        \<lparr> PlayerState.name = ''Eldrin'', level = Number ''5'' \<rparr>
        \<lparr> location = ''the Whispering Woods'', timeOfDay = ''dusk'' \<rparr>)
   \<and> sublist ''Eldrin''
     (build_prompt \<lparr> EntityState.name = ''Mysterious Old Man'', personality = Some ''cryptic and wise'' \<rparr>
        \<lparr> PlayerState.name = ''Eldrin'', level = Number ''5'' \<rparr>
        \<lparr> location = ''the Whispering Woods'', timeOfDay = ''dusk'' \<rparr>)
   \<and> fst (generateNpcDialogue
          (test_manager (mockGenerateContent ''Greetings, traveler.'') MockGameAdapter)
          (mockedFetch (audio_response [0, 0, 0, 0, 0, 0, 0, 0])) ''npc-1'' ((), [])) = Inr ()
   \<and> [ev \<leftarrow> snd (snd (generateNpcDialogue
          (test_manager (mockGenerateContent ''Greetings, traveler.'') MockGameAdapter)
          (mockedFetch (audio_response [0, 0, 0, 0, 0, 0, 0, 0])) ''npc-1'' ((), []))).
        is_ShowDialogue ev \<or> is_GenerateSpeech ev \<or> is_PlayAudio ev]
     = [ShowDialogue ''Greetings, traveler.'' \<lparr> DialogueOptions.entityId = ''npc-1'', duration = None \<rparr>,
        GenerateSpeech ''Greetings, traveler.'',
        PlayAudio [0, 0, 0, 0, 0, 0, 0, 0] \<lparr> AudioOptions.entityId = Some ''npc-1'' \<rparr>]"
proof -
  let ?t = "''Greetings, traveler.''"
  let ?b = "[0, 0, 0, 0, 0, 0, 0, 0] :: ArrayBuffer"
  let ?mgr = "test_manager (mockGenerateContent ?t) MockGameAdapter"
  let ?fetch = "mockedFetch (audio_response ?b)"
  let ?npc = "\<lparr> EntityState.name = ''Mysterious Old Man'', personality = Some ''cryptic and wise'' \<rparr>"
  let ?pl = "\<lparr> PlayerState.name = ''Eldrin'', level = Number ''5'' \<rparr>"
  let ?gs = "\<lparr> location = ''the Whispering Woods'', timeOfDay = ''dusk'' \<rparr>"
  let ?run = "generateNpcDialogue ?mgr ?fetch ''npc-1'' ((), [])"
  have f1: "getEntityState (adapter ?mgr) ''npc-1'' () = (Inr ?npc, ())"
    and f2: "getPlayerState (adapter ?mgr) () = (Inr ?pl, ())"
    and f3: "getGameState (adapter ?mgr) () = (Inr ?gs, ())"
    and shown: "showDialogue (adapter ?mgr) ?t
                  \<lparr> DialogueOptions.entityId = ''npc-1'', duration = None \<rparr> () = (Inr (), ())"
    and played: "playAudio (adapter ?mgr) ?b \<lparr> AudioOptions.entityId = Some ''npc-1'' \<rparr> ()
                   = (Inr (), ())"
    by (simp_all add: test_manager_def MockGameAdapter_def)
  have gen: "snd (generateText (llmService ?mgr) (build_prompt ?npc ?pl ?gs)) = Inr (Some ?t)"
    by (simp add: test_manager_def generateText_def mockGenerateContent_def first_text_def
          falsy_def)
  have audio: "snd (generateSpeech ?fetch (ttsService ?mgr) ?t) = Inr (Some ?b)"
    by (simp add: test_manager_def generateSpeech_def generateSpeech_try_def mockedFetch_def
          audio_response_def)
  have quiet: "[ev \<leftarrow> fst (generateText (llmService ?mgr) (build_prompt ?npc ?pl ?gs)).
                  is_ShowDialogue ev \<or> is_GenerateSpeech ev \<or> is_PlayAudio ev] = []"
      "[ev \<leftarrow> fst (generateSpeech ?fetch (ttsService ?mgr) ?t).
                  is_ShowDialogue ev \<or> is_GenerateSpeech ev \<or> is_PlayAudio ev] = []"
    by simp_all
  from display_then_play [OF f1 f2 f3 gen shown audio] played quiet show ?thesis
    by auto
qed

end
